theory Spec2Isabelle
  imports Main "HOL-Library.Char_ord" "HOL-Library.List_Lexorder"
    "HOL-Library.Product_Lexorder" "HOL-Library.Multiset"
begin

section \<open>The parsed metadata read by dump\_parsed.py\<close>

text \<open>
  Modelled from the spec: the entity classes (FunctionInfo, MethodInfo, FieldInfo, EnumInfo,
  TypedefInfo, ClassInfo, ClassTemplateInfo, ModuleInfo) are unpickled from the snapshot and
  are not declared in dump\_parsed.py. Each record below has exactly the attributes that
  dump\_parsed.py reads, with the types of section 3 of the specification: names and types
  are strings, an argument is a triple (name, type, optional default), an enum holds a
  sequence of (label, value) pairs, a type parameter is a triple (kind, name, optional
  default). A Python string is a \<open>string\<close>, compared as Python compares strings: character
  by character, by code point, a proper prefix first. The attribute \<open>fields\<close> of ClassInfo is
  called \<open>class_fields\<close>. The optional attributes of TypedefInfo, which the code probes with
  \<open>hasattr\<close>, are options: \<open>None\<close> is a missing attribute.
\<close>

type_synonym arg = "string \<times> string \<times> string option"

record function_info =
  name :: string
  return_type :: string
  args :: "arg list"
  inline :: bool
  namespace :: string

record method_info =
  name :: string
  return_type :: string
  args :: "arg list"
  const :: bool
  virtual :: bool
  pure_virtual :: bool
  inline :: bool

record constructor_info =
  name :: string
  args :: "arg list"

record field_info =
  name :: string
  type :: string
  const :: bool
  pod :: bool

record enum_info =
  name :: string
  "values" :: "(string \<times> int) list"
  anonymous :: bool

record typedef_info =
  name :: string
  type :: string
  pod :: bool
  template_base :: "string option"
  template_args :: "string list option"

record class_info =
  name :: string
  abstract :: bool
  superclass :: "string list"
  constructors :: "constructor_info list"
  methods :: "method_info list"
  static_methods :: "method_info list"
  operators :: "method_info list"
  class_fields :: "field_info list"
  enums :: "enum_info list"

record class_template_info = class_info +
  type_params :: "(string \<times> string \<times> string option) list"

record module_info =
  name :: string
  dependencies_headers :: "string list"
  namespaces :: "string list"
  headers :: "string list"
  classes :: "class_info list"
  class_templates :: "class_template_info list"
  typedefs :: "typedef_info list"
  enums :: "enum_info list"
  "functions" :: "function_info list"
  operators :: "function_info list"

section \<open>Python values\<close>

text \<open>
  The plain data the serializers build. \<open>PDict\<close> is a \<open>dict\<close> and \<open>PODict\<close> an
  \<open>OrderedDict\<close>; both keep their items in insertion order, so both carry an association
  list. All keys in this program are strings.
\<close>

datatype pyval =
    PNone
  | PBool bool
  | PInt int
  | PStr string
  | PList "pyval list"
  | PTuple "pyval list"
  | PDict "(string \<times> pyval) list"
  | PODict "(string \<times> pyval) list"

type_synonym items = "(string \<times> pyval) list"

text \<open>\<open>d[k] = v\<close>: an existing key keeps its place and takes the new value, a new key goes last.\<close>

fun setitem :: "items \<Rightarrow> string \<Rightarrow> pyval \<Rightarrow> items" where
  "setitem [] k v = [(k, v)]"
| "setitem ((k', v') # d) k v = (if k' = k then (k', v) # d else (k', v') # setitem d k v)"

text \<open>A dict display \<open>{k: v, ...}\<close> or \<open>OrderedDict([(k, v), ...])\<close>: the pairs are stored in turn.\<close>

definition dict_items :: "(string \<times> pyval) list \<Rightarrow> items" where
  "dict_items ps = foldl (\<lambda>d (k, v). setitem d k v) [] ps"

definition opt_str :: "string option \<Rightarrow> pyval" where
  "opt_str x = (case x of None \<Rightarrow> PNone | Some s \<Rightarrow> PStr s)"

subsection \<open>\<open>str\<close> and \<open>repr\<close>\<close>

fun str_nat :: "nat \<Rightarrow> string" where
  "str_nat n = (if n < 10 then [char_of (48 + n)]
     else str_nat (n div 10) @ [char_of (48 + n mod 10)])"

definition str_int :: "int \<Rightarrow> string" where
  "str_int i = (if i < 0 then CHR ''-'' # str_nat (nat (- i)) else str_nat (nat i))"

definition hex_digit :: "nat \<Rightarrow> char" where
  "hex_digit d = (if d < 10 then char_of (48 + d) else char_of (87 + d))"

text \<open>
  One character of \<open>repr\<close> of a string quoted with \<open>q\<close>. Characters are code points below 256;
  of those above 126 the printable ones are 161 to 255 without 173.
\<close>

definition repr_char :: "char \<Rightarrow> char \<Rightarrow> string" where
  "repr_char q c =
    (let n = (of_char c :: nat) in
     if c = q \<or> n = 92 then [CHR 0x5C, c]
     else if n = 9 then [CHR 0x5C, CHR ''t'']
     else if n = 10 then [CHR 0x5C, CHR ''n'']
     else if n = 13 then [CHR 0x5C, CHR ''r'']
     else if n < 32 \<or> n = 127 then [CHR 0x5C, CHR ''x'', hex_digit (n div 16), hex_digit (n mod 16)]
     else if n < 127 then [c]
     else if n < 161 \<or> n = 173 then [CHR 0x5C, CHR ''x'', hex_digit (n div 16), hex_digit (n mod 16)]
     else [c])"

definition repr_str :: "string \<Rightarrow> string" where
  "repr_str s =
    (let q = (if CHR 0x27 \<in> set s \<and> CHR 0x22 \<notin> set s then CHR 0x22 else CHR 0x27)
     in q # concat (map (repr_char q) s) @ [q])"

fun join :: "string \<Rightarrow> string list \<Rightarrow> string" where
  "join sep [] = []"
| "join sep [x] = x"
| "join sep (x # y # ys) = x @ sep @ join sep (y # ys)"

text \<open>
  \<open>str(x)\<close> of a value that is not a string is its \<open>repr\<close>. The program takes \<open>str\<close> of dicts
  of lists of strings only; the \<open>OrderedDict\<close> line is the form of Python 3.12.
\<close>

fun py_repr :: "pyval \<Rightarrow> string" where
  "py_repr PNone = ''None''"
| "py_repr (PBool b) = (if b then ''True'' else ''False'')"
| "py_repr (PInt i) = str_int i"
| "py_repr (PStr s) = repr_str s"
| "py_repr (PList xs) = ''['' @ join '', '' (map py_repr xs) @ '']''"
| "py_repr (PTuple xs) =
     (if length xs = 1 then ''('' @ join '', '' (map py_repr xs) @ '',)''
      else ''('' @ join '', '' (map py_repr xs) @ '')'')"
| "py_repr (PDict kvs) =
     ''{'' @ join '', '' (map (\<lambda>kv. repr_str (fst kv) @ '': '' @ py_repr (snd kv)) kvs) @ ''}''"
| "py_repr (PODict kvs) =
     (if kvs = [] then ''OrderedDict()''
      else ''OrderedDict({''
        @ join '', '' (map (\<lambda>kv. repr_str (fst kv) @ '': '' @ py_repr (snd kv)) kvs) @ ''})'')"

definition py_str :: "pyval \<Rightarrow> string" where
  "py_str x = (case x of PStr s \<Rightarrow> s | _ \<Rightarrow> py_repr x)"

section \<open>The serializers\<close>

text \<open>
  Each \<open>serialize_\<close> function returns the items of the dict it builds. \<open>sorted(xs)\<close> is
  \<open>sort\<close> and \<open>sorted(xs, key=f)\<close> is \<open>sort_key f\<close>: both are stable, as Python's sort is.
\<close>

definition strip_default :: "arg \<Rightarrow> pyval" where
  "strip_default a = (case a of (nm, typ, _) \<Rightarrow> PTuple [PStr nm, PStr typ])"

definition serialize_function :: "function_info \<Rightarrow> items" where
  "serialize_function func = dict_items
     [(''name'', PStr (function_info.name func)),
      (''return_type'', PStr (function_info.return_type func)),
      (''args'', PList (map strip_default (function_info.args func))),
      (''inline'', PBool (function_info.inline func)),
      (''namespace'', PStr (namespace func))]"

definition serialize_method :: "method_info \<Rightarrow> items" where
  "serialize_method method = dict_items
     [(''name'', PStr (method_info.name method)),
      (''return_type'', PStr (method_info.return_type method)),
      (''args'', PList (map strip_default (method_info.args method))),
      (''const'', PBool (method_info.const method)),
      (''virtual'', PBool (virtual method)),
      (''pure_virtual'', PBool (pure_virtual method)),
      (''inline'', PBool (method_info.inline method))]"

definition serialize_field :: "field_info \<Rightarrow> items" where
  "serialize_field field = dict_items
     [(''name'', PStr (field_info.name field)),
      (''type'', PStr (field_info.type field)),
      (''const'', PBool (field_info.const field)),
      (''pod'', PBool (field_info.pod field))]"

definition enum_values :: "(string \<times> int) list \<Rightarrow> pyval" where
  "enum_values vs = PList (map (\<lambda>(label, v). PTuple [PStr label, PInt v]) vs)"

definition serialize_enum :: "enum_info \<Rightarrow> items" where
  "serialize_enum enum = dict_items
     [(''name'', PStr (enum_info.name enum)),
      (''values'', enum_values (enum_info.values enum)),
      (''anonymous'', PBool (anonymous enum))]"

definition serialize_typedef :: "typedef_info \<Rightarrow> items" where
  "serialize_typedef typedef =
    (let result = dict_items
           [(''name'', PStr (typedef_info.name typedef)),
            (''type'', PStr (typedef_info.type typedef)),
            (''pod'', PBool (typedef_info.pod typedef))];
         result = (case template_base typedef of
                     Some b \<Rightarrow> if b \<noteq> [] then setitem result ''template_base'' (PStr b) else result
                   | None \<Rightarrow> result);
         result = (case template_args typedef of
                     Some as \<Rightarrow> if as \<noteq> [] then setitem result ''template_args'' (PList (map PStr as))
                               else result
                   | None \<Rightarrow> result)
     in result)"

definition constructor_signature :: "constructor_info \<Rightarrow> pyval" where
  "constructor_signature c =
     PDict (dict_items [(''arg_types'', PList (map (\<lambda>(_, typ, _). PStr typ) (constructor_info.args c)))])"

definition serialize_class :: "'a class_info_scheme \<Rightarrow> items" where
  "serialize_class cls =
    (let result = dict_items
           [(''name'', PStr (class_info.name cls)),
            (''abstract'', PBool (abstract cls)),
            (''superclass'', PList (map PStr (sort (superclass cls)))),
            (''counts'', PODict (dict_items
               [(''constructors'', PInt (int (length (constructors cls)))),
                (''methods'', PInt (int (length (methods cls)))),
                (''static_methods'', PInt (int (length (static_methods cls)))),
                (''operators'', PInt (int (length (class_info.operators cls)))),
                (''fields'', PInt (int (length (class_fields cls)))),
                (''enums'', PInt (int (length (class_info.enums cls))))]))];
         result = (if class_fields cls \<noteq> [] then
                     setitem result ''fields''
                       (PList (map (\<lambda>f. PDict (serialize_field f))
                                (sort_key field_info.name (class_fields cls))))
                   else result);
         result = (if class_info.enums cls \<noteq> [] then
                     setitem result ''enums''
                       (PList (map (\<lambda>e. PDict (serialize_enum e))
                                (sort_key enum_info.name (class_info.enums cls))))
                   else result);
         result = (if constructors cls \<noteq> [] then
                     setitem result ''constructor_signatures''
                       (PList (sort_key py_str (map constructor_signature (constructors cls))))
                   else result);
         result = (if methods cls \<noteq> [] then
                     setitem result ''method_names''
                       (PList (map PStr (sort (map method_info.name (methods cls)))))
                   else result);
         result = (if static_methods cls \<noteq> [] then
                     setitem result ''static_method_names''
                       (PList (map PStr (sort (map method_info.name (static_methods cls)))))
                   else result);
         result = (if class_info.operators cls \<noteq> [] then
                     setitem result ''operator_names''
                       (PList (map PStr (sort (map method_info.name (class_info.operators cls)))))
                   else result)
     in result)"

definition type_param :: "string \<times> string \<times> string option \<Rightarrow> pyval" where
  "type_param p = (case p of (typ, nm, dflt) \<Rightarrow>
     PDict (dict_items [(''type'', PStr typ), (''name'', PStr nm), (''default'', opt_str dflt)]))"

definition serialize_class_template :: "class_template_info \<Rightarrow> items" where
  "serialize_class_template cls_tmpl =
    (let result = serialize_class cls_tmpl
     in setitem result ''type_params'' (PList (map type_param (type_params cls_tmpl))))"

definition function_name_entry :: "function_info \<Rightarrow> pyval" where
  "function_name_entry f = PDict (dict_items
     [(''name'', PStr (function_info.name f)),
      (''arg_count'', PInt (int (length (function_info.args f))))])"

text \<open>The sort key \<open>lambda x: (x['name'], x['arg_count'])\<close>, on the dicts just built.\<close>

definition name_count_key :: "pyval \<Rightarrow> string \<times> int" where
  "name_count_key x =
     (case x of
        PDict d \<Rightarrow>
          (case (map_of d ''name'', map_of d ''arg_count'') of
             (Some (PStr n), Some (PInt k)) \<Rightarrow> (n, k)
           | _ \<Rightarrow> ([], 0))
      | _ \<Rightarrow> ([], 0))"

definition serialize_module :: "module_info \<Rightarrow> items" where
  "serialize_module module =
    (let result = dict_items
           [(''name'', PStr (module_info.name module)),
            (''dependencies'', PList (map PStr (sort (dependencies_headers module)))),
            (''namespaces'', PList (map PStr (sort (namespaces module)))),
            (''counts'', PODict (dict_items
               [(''headers'', PInt (int (length (headers module)))),
                (''classes'', PInt (int (length (classes module)))),
                (''class_templates'', PInt (int (length (class_templates module)))),
                (''typedefs'', PInt (int (length (typedefs module)))),
                (''enums'', PInt (int (length (module_info.enums module)))),
                (''functions'', PInt (int (length (functions module)))),
                (''operators'', PInt (int (length (module_info.operators module))))]))];
         result = (if classes module \<noteq> [] then
                     setitem result ''classes''
                       (PODict (dict_items
                          (map (\<lambda>cls. (class_info.name cls, PODict (serialize_class cls)))
                             (sort_key class_info.name (classes module)))))
                   else result);
         result = (if class_templates module \<noteq> [] then
                     setitem result ''class_templates''
                       (PODict (dict_items
                          (map (\<lambda>tmpl. (class_info.name tmpl, PODict (serialize_class_template tmpl)))
                             (sort_key class_info.name (class_templates module)))))
                   else result);
         result = (if typedefs module \<noteq> [] then
                     setitem result ''typedefs''
                       (PList (map (\<lambda>t. PDict (serialize_typedef t))
                                (sort_key typedef_info.name (typedefs module))))
                   else result);
         result = (if module_info.enums module \<noteq> [] then
                     setitem result ''enums''
                       (PList (map (\<lambda>e. PDict (serialize_enum e))
                                (sort_key enum_info.name (module_info.enums module))))
                   else result);
         result = (if functions module \<noteq> [] then
                     setitem result ''function_names''
                       (PList (sort_key name_count_key (map function_name_entry (functions module))))
                   else result);
         result = (if module_info.operators module \<noteq> [] then
                     setitem result ''operator_names''
                       (PList (sort_key name_count_key
                                (map function_name_entry (module_info.operators module))))
                   else result)
     in result)"

section \<open>The run: load, serialize, write\<close>

text \<open>
  A path is the string form of a \<open>Path\<close> object, \<open>str(Path(s))\<close>: it is what the program
  prints and what it hands to the operating system. The file system maps a path to a regular
  file with its content or to a directory; standard output is the list of the strings
  printed, one per \<open>print\<close>; \<open>accesses\<close> logs every call that reaches the file system.
\<close>

type_synonym path = string

datatype node = File string | Dir

datatype fs_call = Exists path | OpenRead path | OpenWrite path

datatype exn =
    FileNotFoundError
  | IsADirectoryError
  | PermissionError
  | ValueError
  | UnpicklingError
  | YAMLError

record world =
  files :: "path \<rightharpoonup> node"
  stdout :: "string list"
  accesses :: "fs_call list"

text \<open>
  The libraries and the operating system, which dump\_parsed.py calls and does not define:
  \<open>pickle.load\<close> decodes the bytes of the snapshot or raises; \<open>yaml.dump\<close> writes text to
  the open stream and may raise after writing part of it (the text written so far, and the
  exception if any); \<open>Path\<close> turns a command-line string into a path, as the pathlib of
  the platform normalises it; \<open>Path.with_name\<close> replaces the last component of a path or
  raises; \<open>writable\<close> tells where \<open>open(path, 'w')\<close> succeeds.
\<close>

record platform =
  pickle_load :: "string \<Rightarrow> exn + module_info list"
  yaml_dump :: "pyval \<Rightarrow> string \<times> exn option"
  Path :: "string \<Rightarrow> path"
  with_name :: "path \<Rightarrow> string \<Rightarrow> exn + path"
  writable :: "path \<Rightarrow> bool"

text \<open>
  The pathlib of a POSIX platform, for the example runs: \<open>str(PurePosixPath(s))\<close> drops
  empty and \<open>.\<close> components, keeps one leading slash (or exactly two), and is \<open>.\<close> when
  nothing is left; \<open>with_name\<close> raises on a path with an empty name and on an invalid name.
\<close>

fun split_on :: "char \<Rightarrow> string \<Rightarrow> string list" where
  "split_on c [] = [[]]"
| "split_on c (x # xs) =
     (if x = c then [] # split_on c xs
      else (case split_on c xs of [] \<Rightarrow> [[x]] | p # ps \<Rightarrow> (x # p) # ps))"

definition posix_path :: "string \<Rightarrow> path" where
  "posix_path s =
     (let parts = filter (\<lambda>p. p \<noteq> [] \<and> p \<noteq> ''.'') (split_on CHR ''/'' s);
          root = (if take 2 s = ''//'' \<and> take 3 s \<noteq> ''///'' then ''//''
                  else if take 1 s = ''/'' then ''/'' else []);
          r = root @ join ''/'' parts
      in if r = [] then ''.'' else r)"

definition posix_with_name :: "path \<Rightarrow> string \<Rightarrow> exn + path" where
  "posix_with_name p n =
     (let nm = last (split_on CHR ''/'' p) in
      if nm = [] \<or> p = ''.'' then Inl ValueError
      else if n = [] \<or> n = ''.'' \<or> CHR ''/'' \<in> set n then Inl ValueError
      else Inr (take (length p - length nm) p @ n))"

definition print :: "string \<Rightarrow> world \<Rightarrow> world" where
  "print s w = w\<lparr>stdout := stdout w @ [s]\<rparr>"

definition access :: "fs_call \<Rightarrow> world \<Rightarrow> world" where
  "access c w = w\<lparr>accesses := accesses w @ [c]\<rparr>"

text \<open>\<open>with open(pkl_path, 'rb') as f: modules = pickle.load(f)\<close>\<close>

definition load_modules :: "platform \<Rightarrow> path \<Rightarrow> world \<Rightarrow> exn + module_info list" where
  "load_modules P pkl_path w =
     (case files w pkl_path of
        None \<Rightarrow> Inl FileNotFoundError
      | Some Dir \<Rightarrow> Inl IsADirectoryError
      | Some (File bytes) \<Rightarrow> pickle_load P bytes)"

definition total_modules :: "module_info list \<Rightarrow> nat" where
  "total_modules modules = length modules"

definition total_classes :: "module_info list \<Rightarrow> nat" where
  "total_classes modules = sum_list (map (\<lambda>m. length (classes m)) modules)"

definition total_class_templates :: "module_info list \<Rightarrow> nat" where
  "total_class_templates modules = sum_list (map (\<lambda>m. length (class_templates m)) modules)"

definition total_typedefs :: "module_info list \<Rightarrow> nat" where
  "total_typedefs modules = sum_list (map (\<lambda>m. length (typedefs m)) modules)"

definition total_enums :: "module_info list \<Rightarrow> nat" where
  "total_enums modules = sum_list (map (\<lambda>m. length (module_info.enums m)) modules)"

definition total_functions :: "module_info list \<Rightarrow> nat" where
  "total_functions modules = sum_list (map (\<lambda>m. length (functions m)) modules)"

definition summary :: "module_info list \<Rightarrow> items" where
  "summary modules = dict_items
     [(''total_modules'', PInt (int (total_modules modules))),
      (''total_classes'', PInt (int (total_classes modules))),
      (''total_class_templates'', PInt (int (total_class_templates modules))),
      (''total_typedefs'', PInt (int (total_typedefs modules))),
      (''total_enums'', PInt (int (total_enums modules))),
      (''total_functions'', PInt (int (total_functions modules)))]"

definition serialized_modules :: "module_info list \<Rightarrow> items" where
  "serialized_modules modules = dict_items
     (map (\<lambda>module. (module_info.name module, PODict (serialize_module module)))
        (sort_key module_info.name modules))"

definition dump_output :: "module_info list \<Rightarrow> pyval" where
  "dump_output modules = PODict (dict_items
     [(''summary'', PODict (summary modules)),
      (''modules'', PODict (serialized_modules modules))])"

text \<open>
  \<open>with open(output_path, 'w') as f: yaml.dump(output, f, ...)\<close>: opening creates the file or
  empties it, then \<open>yaml.dump\<close> writes; leaving the block closes the file with what was
  written, also when \<open>yaml.dump\<close> raises.
\<close>

definition write_yaml :: "platform \<Rightarrow> path \<Rightarrow> pyval \<Rightarrow> world \<Rightarrow> (exn + unit) \<times> world" where
  "write_yaml P output_path output w =
     (let w = access (OpenWrite output_path) w in
      if files w output_path = Some Dir then (Inl IsADirectoryError, w)
      else if \<not> writable P output_path then (Inl PermissionError, w)
      else
        (let w = w\<lparr>files := (files w)(output_path \<mapsto> File [])\<rparr>;
             (text, raised) = yaml_dump P output;
             w = w\<lparr>files := (files w)(output_path \<mapsto> File text)\<rparr>
         in case raised of Some e \<Rightarrow> (Inl e, w) | None \<Rightarrow> (Inr (), w)))"

definition print_summary :: "module_info list \<Rightarrow> world \<Rightarrow> world" where
  "print_summary modules w =
     (let w = print ''Done!'' w;
          w = print (CHR 0x0A # ''Summary:'') w;
          w = print (''  Modules: '' @ str_nat (total_modules modules)) w;
          w = print (''  Classes: '' @ str_nat (total_classes modules)) w;
          w = print (''  Class Templates: '' @ str_nat (total_class_templates modules)) w;
          w = print (''  Typedefs: '' @ str_nat (total_typedefs modules)) w;
          w = print (''  Enums: '' @ str_nat (total_enums modules)) w;
          w = print (''  Functions: '' @ str_nat (total_functions modules)) w
      in w)"

definition dump_parsed_pkl :: "platform \<Rightarrow> path \<Rightarrow> path \<Rightarrow> world \<Rightarrow> (exn + unit) \<times> world" where
  "dump_parsed_pkl P pkl_path output_path w =
     (let w = print (''Loading '' @ pkl_path @ ''...'') w;
          w = access (OpenRead pkl_path) w
      in case load_modules P pkl_path w of
           Inl e \<Rightarrow> (Inl e, w)
         | Inr modules \<Rightarrow>
             (let w = print (''Found '' @ str_nat (length modules) @ '' modules'') w;
                  w = print ''Serializing modules...'' w;
                  output = dump_output modules;
                  w = print (''Writing to '' @ output_path @ ''...'') w
              in case write_yaml P output_path output w of
                   (Inl e, w) \<Rightarrow> (Inl e, w)
                 | (Inr _, w) \<Rightarrow> (Inr (), print_summary modules w)))"

definition usage :: "string list" where
  "usage =
     [''Usage: python dump_parsed.py <parsed_output.pkl> [output.yml]'',
      CHR 0x0A # ''Example:'',
      ''  python dump_parsed.py parsed_output.pkl parsed_dump.yml'']"

text \<open>The output path: the second argument, or \<open>parsed_dump.yml\<close> beside the snapshot.\<close>

definition output_path_of :: "platform \<Rightarrow> string list \<Rightarrow> exn + path" where
  "output_path_of P argv =
     (if length argv > 2 then Inr (Path P (argv ! 2))
      else with_name P (Path P (argv ! 1)) ''parsed_dump.yml'')"

text \<open>
  \<open>main\<close> returns the exit status of the process and the world it leaves: \<open>sys.exit(1)\<close>
  gives 1, an exception that nothing catches gives 1, a normal return gives 0. \<open>argv ! 1\<close>
  and \<open>argv ! 2\<close> are read only under the length tests of the source.
\<close>

definition main :: "platform \<Rightarrow> string list \<Rightarrow> world \<Rightarrow> int \<times> world" where
  "main P argv w =
     (if length argv < 2 then (1, foldl (\<lambda>w s. print s w) w usage)
      else
        (let pkl_path = Path P (argv ! 1);
             w = access (Exists pkl_path) w
         in if files w pkl_path = None then
              (1, print (''Error: File not found: '' @ pkl_path) w)
            else
              (case output_path_of P argv of
                 Inl e \<Rightarrow> (1, w)
               | Inr output_path \<Rightarrow>
                   (case dump_parsed_pkl P pkl_path output_path w of
                      (Inl e, w) \<Rightarrow> (1, w)
                    | (Inr _, w) \<Rightarrow> (0, w)))))"

section \<open>Relations between snapshots\<close>

text \<open>
  Two collections hold the same entities, in whatever order: names are unique in each, they
  have the same size, and every entity of the first has an entity of the same name in the
  second to which it is related by \<open>R\<close> (equality for fields and enums; for classes and
  modules, the same content with the child collections again in whatever order).
\<close>

definition same_entities :: "('a \<Rightarrow> string) \<Rightarrow> ('a \<Rightarrow> 'a \<Rightarrow> bool) \<Rightarrow> 'a list \<Rightarrow> 'a list \<Rightarrow> bool" where
  "same_entities nm R xs ys \<longleftrightarrow>
     distinct (map nm xs) \<and> distinct (map nm ys) \<and> length xs = length ys \<and>
     list_all (\<lambda>x. list_ex (\<lambda>y. nm y = nm x \<and> R x y) ys) xs"

definition same_class :: "'a class_info_scheme \<Rightarrow> 'a class_info_scheme \<Rightarrow> bool" where
  "same_class c1 c2 \<longleftrightarrow>
     class_info.name c1 = class_info.name c2 \<and>
     abstract c1 = abstract c2 \<and>
     superclass c1 = superclass c2 \<and>
     constructors c1 = constructors c2 \<and>
     methods c1 = methods c2 \<and>
     static_methods c1 = static_methods c2 \<and>
     class_info.operators c1 = class_info.operators c2 \<and>
     same_entities field_info.name (=) (class_fields c1) (class_fields c2) \<and>
     same_entities enum_info.name (=) (class_info.enums c1) (class_info.enums c2) \<and>
     class_info.more c1 = class_info.more c2"

definition same_module :: "module_info \<Rightarrow> module_info \<Rightarrow> bool" where
  "same_module m1 m2 \<longleftrightarrow>
     module_info.name m1 = module_info.name m2 \<and>
     dependencies_headers m1 = dependencies_headers m2 \<and>
     namespaces m1 = namespaces m2 \<and>
     headers m1 = headers m2 \<and>
     same_entities class_info.name same_class (classes m1) (classes m2) \<and>
     same_entities class_info.name same_class (class_templates m1) (class_templates m2) \<and>
     typedefs m1 = typedefs m2 \<and>
     same_entities enum_info.name (=) (module_info.enums m1) (module_info.enums m2) \<and>
     functions m1 = functions m2 \<and>
     module_info.operators m1 = module_info.operators m2"

definition same_snapshot :: "module_info list \<Rightarrow> module_info list \<Rightarrow> bool" where
  "same_snapshot ms1 ms2 \<longleftrightarrow> same_entities module_info.name same_module ms1 ms2"

text \<open>Two arguments, or two argument lists, that differ in default values at most.\<close>

definition same_but_default :: "arg \<Rightarrow> arg \<Rightarrow> bool" where
  "same_but_default a b \<longleftrightarrow> fst a = fst b \<and> fst (snd a) = fst (snd b)"

definition same_but_defaults :: "arg list \<Rightarrow> arg list \<Rightarrow> bool" where
  "same_but_defaults as bs \<longleftrightarrow> list_all2 same_but_default as bs"

text \<open>Reading a serialized dict: the value under a key, the number under a key of \<open>counts\<close>,
  and \<open>len\<close> of a list or mapping.\<close>

definition count_of :: "items \<Rightarrow> string \<Rightarrow> pyval option" where
  "count_of d k =
     (case map_of d ''counts'' of
        Some (PODict cs) \<Rightarrow> map_of cs k
      | _ \<Rightarrow> None)"

definition py_len :: "pyval \<Rightarrow> nat option" where
  "py_len v =
     (case v of
        PList xs \<Rightarrow> Some (length xs)
      | PTuple xs \<Rightarrow> Some (length xs)
      | PDict kvs \<Rightarrow> Some (length kvs)
      | PODict kvs \<Rightarrow> Some (length kvs)
      | PStr s \<Rightarrow> Some (length s)
      | _ \<Rightarrow> None)"

text \<open>
  The counts of the \<open>counts\<close> block with the key of the detail of each; a serialized dict
  meets such a table when every detail that is present has the length its count tells.
\<close>

definition class_count_detail :: "(string \<times> string) list" where
  "class_count_detail =
     [(''constructors'', ''constructor_signatures''),
      (''methods'', ''method_names''),
      (''static_methods'', ''static_method_names''),
      (''operators'', ''operator_names''),
      (''fields'', ''fields''),
      (''enums'', ''enums'')]"

definition module_count_detail :: "(string \<times> string) list" where
  "module_count_detail =
     [(''classes'', ''classes''),
      (''class_templates'', ''class_templates''),
      (''typedefs'', ''typedefs''),
      (''enums'', ''enums''),
      (''functions'', ''function_names''),
      (''operators'', ''operator_names'')]"

definition counts_match :: "items \<Rightarrow> (string \<times> string) list \<Rightarrow> bool" where
  "counts_match d table \<longleftrightarrow>
     list_all (\<lambda>(ck, dk).
        case map_of d dk of
          None \<Rightarrow> True
        | Some v \<Rightarrow>
            (case py_len v of
               None \<Rightarrow> False
             | Some n \<Rightarrow> count_of d ck = Some (PInt (int n)))) table"

definition details_present :: "items \<Rightarrow> (string \<times> string) list \<Rightarrow> bool" where
  "details_present d table \<longleftrightarrow> list_all (\<lambda>(ck, dk). map_of d dk \<noteq> None) table"

section \<open>The fixed part of a serialized class and module\<close>

text \<open>The four items that \<open>serialize_class\<close> and \<open>serialize_module\<close> always emit, written out.\<close>

definition class_base :: "'a class_info_scheme \<Rightarrow> items" where
  "class_base cls =
     [(''name'', PStr (class_info.name cls)),
      (''abstract'', PBool (abstract cls)),
      (''superclass'', PList (map PStr (sort (superclass cls)))),
      (''counts'', PODict
         [(''constructors'', PInt (int (length (constructors cls)))),
          (''methods'', PInt (int (length (methods cls)))),
          (''static_methods'', PInt (int (length (static_methods cls)))),
          (''operators'', PInt (int (length (class_info.operators cls)))),
          (''fields'', PInt (int (length (class_fields cls)))),
          (''enums'', PInt (int (length (class_info.enums cls))))])]"

definition module_base :: "module_info \<Rightarrow> items" where
  "module_base module =
     [(''name'', PStr (module_info.name module)),
      (''dependencies'', PList (map PStr (sort (dependencies_headers module)))),
      (''namespaces'', PList (map PStr (sort (namespaces module)))),
      (''counts'', PODict
         [(''headers'', PInt (int (length (headers module)))),
          (''classes'', PInt (int (length (classes module)))),
          (''class_templates'', PInt (int (length (class_templates module)))),
          (''typedefs'', PInt (int (length (typedefs module)))),
          (''enums'', PInt (int (length (module_info.enums module)))),
          (''functions'', PInt (int (length (functions module)))),
          (''operators'', PInt (int (length (module_info.operators module))))])]"

section \<open>Example data\<close>

definition colour_rgb :: enum_info where
  "colour_rgb = \<lparr>enum_info.name = ''Colour'', values = [(''Red'', 0), (''Green'', 1)], anonymous = False\<rparr>"

definition colour_grb :: enum_info where
  "colour_grb = \<lparr>enum_info.name = ''Colour'', values = [(''Green'', 1), (''Red'', 0)], anonymous = False\<rparr>"

definition resize_function :: function_info where
  "resize_function = \<lparr>function_info.name = ''resize'', return_type = ''void'',
     args = [], inline = False, namespace = ''Core''\<rparr>"

definition resize_method :: method_info where
  "resize_method = \<lparr>method_info.name = ''resize'', return_type = ''void'', args = [],
     const = False, virtual = True, pure_virtual = False, inline = False\<rparr>"

definition widget_constructor :: constructor_info where
  "widget_constructor = \<lparr>constructor_info.name = ''Widget'', args = [(''w'', ''int'', Some ''0'')]\<rparr>"


definition draw_method :: method_info where
  "draw_method = \<lparr>method_info.name = ''draw'', return_type = ''void'', args = [],
     const = True, virtual = True, pure_virtual = False, inline = False\<rparr>"

definition size_field :: field_info where
  "size_field = \<lparr>field_info.name = ''size'', type = ''int'', const = False, pod = True\<rparr>"

definition copy_constructor :: constructor_info where
  "copy_constructor = \<lparr>constructor_info.name = ''Widget'', args = [(''other'', ''Widget'', None)]\<rparr>"

definition plain_class :: class_info where
  "plain_class = \<lparr>class_info.name = ''Plain'', abstract = False, superclass = [],
     constructors = [], methods = [], static_methods = [], operators = [],
     class_fields = [], enums = []\<rparr>"

definition widget :: class_info where
  "widget = \<lparr>class_info.name = ''Widget'', abstract = False, superclass = [''Shape'', ''Base''],
     constructors = [widget_constructor, copy_constructor],
     methods = [resize_method, draw_method], static_methods = [draw_method],
     operators = [resize_method], class_fields = [size_field], enums = [colour_rgb]\<rparr>"

definition plain_template :: class_template_info where
  "plain_template = \<lparr>class_info.name = ''Box'', abstract = False, superclass = [],
     constructors = [], methods = [], static_methods = [], operators = [],
     class_fields = [], enums = [], type_params = []\<rparr>"

definition array_template :: class_template_info where
  "array_template = \<lparr>class_info.name = ''Array'', abstract = False, superclass = [],
     constructors = [], methods = [], static_methods = [], operators = [],
     class_fields = [], enums = [],
     type_params = [(''typename'', ''T'', None), (''int'', ''N'', Some ''3'')]\<rparr>"

definition size_typedef :: typedef_info where
  "size_typedef = \<lparr>typedef_info.name = ''Size'', type = ''int'', pod = True,
     template_base = None, template_args = None\<rparr>"

definition scale_function :: function_info where
  "scale_function = \<lparr>function_info.name = ''scale'', return_type = ''void'',
     args = [(''w'', ''Widget'', None), (''factor'', ''double'', Some ''1.0'')],
     inline = False, namespace = ''Core''\<rparr>"

definition plain_module :: module_info where
  "plain_module = \<lparr>module_info.name = ''Plain'', dependencies_headers = [], namespaces = [],
     headers = [], classes = [], class_templates = [], typedefs = [], enums = [],
     functions = [], operators = []\<rparr>"

definition core :: module_info where
  "core = \<lparr>module_info.name = ''Core'', dependencies_headers = [''b.hxx'', ''a.hxx''],
     namespaces = [''Core''], headers = [''Core.hxx'', ''Widget.hxx''],
     classes = [widget, plain_class], class_templates = [array_template],
     typedefs = [size_typedef], enums = [colour_rgb],
     functions = [scale_function, resize_function, scale_function\<lparr>function_info.args := []\<rparr>],
     operators = [resize_function]\<rparr>"

definition weight_field :: field_info where
  "weight_field = \<lparr>field_info.name = ''weight'', type = ''double'', const = True, pod = True\<rparr>"

definition mode_enum :: enum_info where
  "mode_enum = \<lparr>enum_info.name = ''Mode'', values = [(''Off'', 0), (''On'', 1)], anonymous = False\<rparr>"

definition gadget :: class_info where
  "gadget = \<lparr>class_info.name = ''Gadget'', abstract = True, superclass = [''Base''],
     constructors = [], methods = [draw_method], static_methods = [], operators = [],
     class_fields = [size_field, weight_field], enums = [colour_rgb, mode_enum]\<rparr>"

definition gadget_permuted :: class_info where
  "gadget_permuted = gadget\<lparr>class_fields := [weight_field, size_field],
     class_info.enums := [mode_enum, colour_rgb]\<rparr>"

definition tools :: module_info where
  "tools = \<lparr>module_info.name = ''Tools'', dependencies_headers = [''Core.hxx''],
     namespaces = [], headers = [''Tools.hxx''],
     classes = [gadget, plain_class], class_templates = [], typedefs = [],
     enums = [colour_rgb, mode_enum], functions = [], operators = []\<rparr>"

definition tools_permuted :: module_info where
  "tools_permuted = tools\<lparr>classes := [plain_class, gadget_permuted],
     module_info.enums := [mode_enum, colour_rgb]\<rparr>"

definition snapshot_a :: "module_info list" where
  "snapshot_a = [tools, plain_module]"

definition snapshot_b :: "module_info list" where
  "snapshot_b = [plain_module, tools_permuted]"

definition grid_template :: class_template_info where
  "grid_template = \<lparr>class_info.name = ''Grid'', abstract = False, superclass = [],
     constructors = [copy_constructor], methods = [draw_method, resize_method],
     static_methods = [draw_method], operators = [resize_method],
     class_fields = [size_field, weight_field], enums = [mode_enum],
     type_params = [(''typename'', ''T'', None)]\<rparr>"

definition twice_plain :: module_info where
  "twice_plain = plain_module\<lparr>classes := [plain_class, plain_class]\<rparr>"

definition working :: platform where
  "working = \<lparr>pickle_load = (\<lambda>bytes. Inr [plain_module]),
     yaml_dump = (\<lambda>v. (''summary: {}'', None)),
     Path = posix_path,
     with_name = posix_with_name,
     writable = (\<lambda>p. True)\<rparr>"

definition broken_yaml :: platform where
  "broken_yaml = working\<lparr>yaml_dump := (\<lambda>v. (''summary:'', Some YAMLError))\<rparr>"

definition corrupt_pickle :: platform where
  "corrupt_pickle = working\<lparr>pickle_load := (\<lambda>bytes. Inl UnpicklingError)\<rparr>"

definition snapshot_only :: world where
  "snapshot_only = \<lparr>files = [''parsed_output.pkl'' \<mapsto> File ''pickle'', ''.'' \<mapsto> Dir],
     stdout = [], accesses = []\<rparr>"

definition dump_args :: "string list" where
  "dump_args = [''dump_parsed.py'', ''./parsed_output.pkl'', ''parsed_dump.yml'']"

definition unit_enum :: enum_info where
  "unit_enum = \<lparr>enum_info.name = ''Unit'', values = [], anonymous = False\<rparr>"

section \<open>Dictionaries\<close>

lemma setitem_fresh: "k \<notin> set (map fst d) \<Longrightarrow> setitem d k v = d @ [(k, v)]"
  by (induction d) auto

lemma map_of_setitem: "map_of (setitem d k v) = (map_of d)(k \<mapsto> v)"
  by (induction d) (auto simp: fun_eq_iff)


lemma foldl_setitem_distinct:
  "distinct (map fst (d @ ps)) \<Longrightarrow> foldl (\<lambda>d (k, v). setitem d k v) d ps = d @ ps"
proof (induction ps arbitrary: d)
  case Nil
  then show ?case by simp
next
  case (Cons p ps)
  obtain k v where p: "p = (k, v)" by (cases p)
  from Cons.prems p have fresh: "k \<notin> set (map fst d)" by auto
  from Cons.prems p have "distinct (map fst ((d @ [(k, v)]) @ ps))" by auto
  then have "foldl (\<lambda>d (k, v). setitem d k v) (d @ [(k, v)]) ps = (d @ [(k, v)]) @ ps"
    by (rule Cons.IH)
  with fresh p show ?case by (simp add: setitem_fresh)
qed

lemma dict_items_distinct: "distinct (map fst ps) \<Longrightarrow> dict_items ps = ps"
  using foldl_setitem_distinct [of "[]" ps] by (simp add: dict_items_def)



section \<open>The serializers, written out\<close>

lemma serialize_class_eq:
  "serialize_class cls = class_base cls
     @ (if class_fields cls \<noteq> [] then
          [(''fields'', PList (map (\<lambda>f. PDict (serialize_field f))
                                (sort_key field_info.name (class_fields cls))))] else [])
     @ (if class_info.enums cls \<noteq> [] then
          [(''enums'', PList (map (\<lambda>e. PDict (serialize_enum e))
                                (sort_key enum_info.name (class_info.enums cls))))] else [])
     @ (if constructors cls \<noteq> [] then
          [(''constructor_signatures'',
              PList (sort_key py_str (map constructor_signature (constructors cls))))] else [])
     @ (if methods cls \<noteq> [] then
          [(''method_names'', PList (map PStr (sort (map method_info.name (methods cls)))))] else [])
     @ (if static_methods cls \<noteq> [] then
          [(''static_method_names'',
              PList (map PStr (sort (map method_info.name (static_methods cls)))))] else [])
     @ (if class_info.operators cls \<noteq> [] then
          [(''operator_names'',
              PList (map PStr (sort (map method_info.name (class_info.operators cls)))))] else [])"
  by (simp add: serialize_class_def class_base_def dict_items_def Let_def)

lemma serialize_module_eq:
  "serialize_module module = module_base module
     @ (if classes module \<noteq> [] then
          [(''classes'', PODict (dict_items
              (map (\<lambda>cls. (class_info.name cls, PODict (serialize_class cls)))
                 (sort_key class_info.name (classes module)))))] else [])
     @ (if class_templates module \<noteq> [] then
          [(''class_templates'', PODict (dict_items
              (map (\<lambda>tmpl. (class_info.name tmpl, PODict (serialize_class_template tmpl)))
                 (sort_key class_info.name (class_templates module)))))] else [])
     @ (if typedefs module \<noteq> [] then
          [(''typedefs'', PList (map (\<lambda>t. PDict (serialize_typedef t))
                                  (sort_key typedef_info.name (typedefs module))))] else [])
     @ (if module_info.enums module \<noteq> [] then
          [(''enums'', PList (map (\<lambda>e. PDict (serialize_enum e))
                               (sort_key enum_info.name (module_info.enums module))))] else [])
     @ (if functions module \<noteq> [] then
          [(''function_names'',
              PList (sort_key name_count_key (map function_name_entry (functions module))))] else [])
     @ (if module_info.operators module \<noteq> [] then
          [(''operator_names'',
              PList (sort_key name_count_key
                       (map function_name_entry (module_info.operators module))))] else [])"
  by (simp add: serialize_module_def module_base_def dict_items_def Let_def)

lemma serialize_enum_eq:
  "serialize_enum e =
     [(''name'', PStr (enum_info.name e)),
      (''values'', enum_values (enum_info.values e)),
      (''anonymous'', PBool (anonymous e))]"
  by (simp add: serialize_enum_def dict_items_def)

section \<open>Enum values\<close>

lemma enum_values_inj: "enum_values vs = enum_values ws \<Longrightarrow> vs = ws"
proof -
  have "inj (\<lambda>(label, v). PTuple [PStr label, PInt v])"
    by (auto simp: inj_on_def)
  then show "enum_values vs = enum_values ws \<Longrightarrow> vs = ws"
    by (simp add: enum_values_def inj_map_eq_map)
qed

text \<open>
  C10. \<open>serialize_enum\<close> emits the (label, value) pairs of an enum as they are stored: the
  list under \<open>values\<close> has the stored pairs in the stored order, none sorted and none
  dropped. Hence two enums whose stored sequences of pairs differ, and in particular two
  enums with the same set of pairs in different orders, serialize differently.
\<close>

theorem enum_values_emitted_as_stored:
  "map_of (serialize_enum e) ''values''
     = Some (PList (map (\<lambda>(label, v). PTuple [PStr label, PInt v]) (enum_info.values e))) \<and>
   (enum_info.values e1 \<noteq> enum_info.values e2 \<longrightarrow> serialize_enum e1 \<noteq> serialize_enum e2)"
proof
  show "map_of (serialize_enum e) ''values''
     = Some (PList (map (\<lambda>(label, v). PTuple [PStr label, PInt v]) (enum_info.values e)))"
    by (simp add: serialize_enum_eq enum_values_def)
  show "enum_info.values e1 \<noteq> enum_info.values e2 \<longrightarrow> serialize_enum e1 \<noteq> serialize_enum e2"
    by (auto simp: serialize_enum_eq dest: enum_values_inj)
qed

theorem enum_values_emitted_as_stored_witness:
  "set (enum_info.values colour_rgb) = set (enum_info.values colour_grb) \<and>
   enum_info.values colour_rgb \<noteq> enum_info.values colour_grb \<and>
   serialize_enum colour_rgb \<noteq> serialize_enum colour_grb"
  using enum_values_emitted_as_stored [of colour_rgb colour_rgb colour_grb]
  by (auto simp: colour_rgb_def colour_grb_def)

section \<open>Default values\<close>

lemma strip_default_cong: "same_but_default a b \<Longrightarrow> strip_default a = strip_default b"
  by (cases a, cases b) (simp add: same_but_default_def strip_default_def)

lemma map_strip_default: "same_but_defaults as bs \<Longrightarrow> map strip_default as = map strip_default bs"
  unfolding same_but_defaults_def
  by (induction as bs rule: list_all2_induct) (simp_all add: strip_default_cong)

lemma map_arg_type:
  "same_but_defaults as bs \<Longrightarrow>
   map (\<lambda>(_, typ, _). PStr typ) as = map (\<lambda>(_, typ, _). PStr typ) bs"
  unfolding same_but_defaults_def
  by (induction as bs rule: list_all2_induct) (auto simp: same_but_default_def)

text \<open>
  C5. Two functions whose records differ only in the default values of their parameters
  serialize to the same dict; likewise two methods; likewise two constructors, whose
  serialized signature is the entry of \<open>constructor_signatures\<close>.
\<close>

theorem default_values_excluded:
  "same_but_defaults as bs \<Longrightarrow>
     serialize_function (f\<lparr>function_info.args := as\<rparr>)
       = serialize_function (f\<lparr>function_info.args := bs\<rparr>) \<and>
     serialize_method (m\<lparr>method_info.args := as\<rparr>)
       = serialize_method (m\<lparr>method_info.args := bs\<rparr>) \<and>
     constructor_signature (c\<lparr>constructor_info.args := as\<rparr>)
       = constructor_signature (c\<lparr>constructor_info.args := bs\<rparr>)"
  using map_strip_default [of as bs] map_arg_type [of as bs]
  by (simp add: serialize_function_def serialize_method_def constructor_signature_def)

theorem default_values_excluded_witness:
  "same_but_defaults [(''w'', ''int'', Some ''0'')] [(''w'', ''int'', None)] \<and>
   [(''w'', ''int'', Some ''0'')] \<noteq> [(''w'', ''int'', None :: string option)] \<and>
   serialize_function (resize_function\<lparr>function_info.args := [(''w'', ''int'', Some ''0'')]\<rparr>)
     = serialize_function (resize_function\<lparr>function_info.args := [(''w'', ''int'', None)]\<rparr>) \<and>
   serialize_method (resize_method\<lparr>method_info.args := [(''w'', ''int'', Some ''0'')]\<rparr>)
     = serialize_method (resize_method\<lparr>method_info.args := [(''w'', ''int'', None)]\<rparr>) \<and>
   constructor_signature (widget_constructor\<lparr>constructor_info.args := [(''w'', ''int'', Some ''0'')]\<rparr>)
     = constructor_signature (widget_constructor\<lparr>constructor_info.args := [(''w'', ''int'', None)]\<rparr>)"
proof -
  have h: "same_but_defaults [(''w'', ''int'', Some ''0'')] [(''w'', ''int'', None)]"
    by (simp add: same_but_defaults_def same_but_default_def)
  show ?thesis
    using h default_values_excluded [OF h, of resize_function resize_method widget_constructor]
    by simp
qed

section \<open>Looking up a key of a serialized class or module\<close>

lemma map_of_serialize_class:
  "map_of (serialize_class cls) ''fields'' =
     (if class_fields cls = [] then None
      else Some (PList (map (\<lambda>f. PDict (serialize_field f))
                          (sort_key field_info.name (class_fields cls)))))"
  "map_of (serialize_class cls) ''enums'' =
     (if class_info.enums cls = [] then None
      else Some (PList (map (\<lambda>e. PDict (serialize_enum e))
                          (sort_key enum_info.name (class_info.enums cls)))))"
  "map_of (serialize_class cls) ''constructor_signatures'' =
     (if constructors cls = [] then None
      else Some (PList (sort_key py_str (map constructor_signature (constructors cls)))))"
  "map_of (serialize_class cls) ''method_names'' =
     (if methods cls = [] then None
      else Some (PList (map PStr (sort (map method_info.name (methods cls))))))"
  "map_of (serialize_class cls) ''static_method_names'' =
     (if static_methods cls = [] then None
      else Some (PList (map PStr (sort (map method_info.name (static_methods cls))))))"
  "map_of (serialize_class cls) ''operator_names'' =
     (if class_info.operators cls = [] then None
      else Some (PList (map PStr (sort (map method_info.name (class_info.operators cls))))))"
  "map_of (serialize_class cls) ''superclass'' = Some (PList (map PStr (sort (superclass cls))))"
  "map_of (serialize_class cls) ''counts'' = Some (PODict
         [(''constructors'', PInt (int (length (constructors cls)))),
          (''methods'', PInt (int (length (methods cls)))),
          (''static_methods'', PInt (int (length (static_methods cls)))),
          (''operators'', PInt (int (length (class_info.operators cls)))),
          (''fields'', PInt (int (length (class_fields cls)))),
          (''enums'', PInt (int (length (class_info.enums cls))))])"
  by (simp_all add: serialize_class_eq class_base_def)

lemma map_of_serialize_class_template:
  "map_of (serialize_class_template t) k =
     (if k = ''type_params'' then Some (PList (map type_param (type_params t)))
      else map_of (serialize_class t) k)"
  by (simp add: serialize_class_template_def map_of_setitem)

lemma map_of_serialize_module:
  "map_of (serialize_module m) ''classes'' =
     (if classes m = [] then None
      else Some (PODict (dict_items
              (map (\<lambda>cls. (class_info.name cls, PODict (serialize_class cls)))
                 (sort_key class_info.name (classes m))))))"
  "map_of (serialize_module m) ''class_templates'' =
     (if class_templates m = [] then None
      else Some (PODict (dict_items
              (map (\<lambda>tmpl. (class_info.name tmpl, PODict (serialize_class_template tmpl)))
                 (sort_key class_info.name (class_templates m))))))"
  "map_of (serialize_module m) ''typedefs'' =
     (if typedefs m = [] then None
      else Some (PList (map (\<lambda>t. PDict (serialize_typedef t))
                          (sort_key typedef_info.name (typedefs m)))))"
  "map_of (serialize_module m) ''enums'' =
     (if module_info.enums m = [] then None
      else Some (PList (map (\<lambda>e. PDict (serialize_enum e))
                          (sort_key enum_info.name (module_info.enums m)))))"
  "map_of (serialize_module m) ''function_names'' =
     (if functions m = [] then None
      else Some (PList (sort_key name_count_key (map function_name_entry (functions m)))))"
  "map_of (serialize_module m) ''operator_names'' =
     (if module_info.operators m = [] then None
      else Some (PList (sort_key name_count_key
                          (map function_name_entry (module_info.operators m)))))"
  "map_of (serialize_module m) ''headers'' = None"
  "map_of (serialize_module m) ''counts'' = Some (PODict
         [(''headers'', PInt (int (length (headers m)))),
          (''classes'', PInt (int (length (classes m)))),
          (''class_templates'', PInt (int (length (class_templates m)))),
          (''typedefs'', PInt (int (length (typedefs m)))),
          (''enums'', PInt (int (length (module_info.enums m)))),
          (''functions'', PInt (int (length (functions m)))),
          (''operators'', PInt (int (length (module_info.operators m))))])"
  by (simp_all add: serialize_module_eq module_base_def)

section \<open>Functions and operators of a module\<close>








section \<open>Constructor signatures\<close>

text \<open>
  C7 as stated does not hold: the entry emitted for a constructor holds the argument types
  only. For a class whose one constructor is \<open>Widget(int w = 0)\<close> the entry has neither the
  name of the constructor nor the name of its argument.
\<close>

theorem constructors_not_in_full_detail:
  "map_of (serialize_class (plain_class\<lparr>constructors := [widget_constructor]\<rparr>)) ''constructor_signatures''
     = Some (PList [PDict [(''arg_types'', PList [PStr ''int''])]]) \<and>
   constructor_info.name widget_constructor = ''Widget'' \<and>
   constructor_info.args widget_constructor = [(''w'', ''int'', Some ''0'')]"
  by (simp add: map_of_serialize_class plain_class_def widget_constructor_def
      constructor_signature_def dict_items_def)

text \<open>
  C7, amended. For a class with a non-empty constructor collection, the list under
  \<open>constructor_signatures\<close> has one dict per constructor, holding under \<open>arg_types\<close> the types
  of its arguments in order (not the name of the constructor, nor the names or default values
  of the arguments, nor flags), and the list is sorted by the string form of these dicts.
\<close>

theorem constructor_signatures_sorted:
  "constructors cls \<noteq> [] \<Longrightarrow>
     \<exists>sigs. map_of (serialize_class cls) ''constructor_signatures'' = Some (PList sigs) \<and>
       mset sigs = mset (map (\<lambda>c. PDict [(''arg_types'',
                          PList (map (\<lambda>a. PStr (fst (snd a))) (constructor_info.args c)))])
                       (constructors cls)) \<and>
       sorted (map py_str sigs)"
proof -
  assume ne: "constructors cls \<noteq> []"
  let ?sigs = "sort_key py_str (map constructor_signature (constructors cls))"
  have sig: "constructor_signature = (\<lambda>c. PDict [(''arg_types'',
                          PList (map (\<lambda>a. PStr (fst (snd a))) (constructor_info.args c)))])"
    by (auto simp: constructor_signature_def dict_items_def fun_eq_iff split: prod.splits)
  have "map_of (serialize_class cls) ''constructor_signatures'' = Some (PList ?sigs)"
    using ne by (simp add: map_of_serialize_class)
  moreover have "mset ?sigs = mset (map (\<lambda>c. PDict [(''arg_types'',
                          PList (map (\<lambda>a. PStr (fst (snd a))) (constructor_info.args c)))])
                       (constructors cls))"
    by (simp add: sig)
  moreover have "sorted (map py_str ?sigs)"
    by (rule sorted_sort_key)
  ultimately show ?thesis by blast
qed

theorem constructor_signatures_sorted_witness:
  "constructors widget \<noteq> [] \<and>
   map_of (serialize_class widget) ''constructor_signatures''
     = Some (PList [PDict [(''arg_types'', PList [PStr ''Widget''])],
                    PDict [(''arg_types'', PList [PStr ''int''])]]) \<and>
   (\<exists>sigs. map_of (serialize_class widget) ''constructor_signatures'' = Some (PList sigs) \<and>
       sorted (map py_str sigs))"
proof -
  have ne: "constructors widget \<noteq> []" by (simp add: widget_def)
  have "map_of (serialize_class widget) ''constructor_signatures''
     = Some (PList [PDict [(''arg_types'', PList [PStr ''Widget''])],
                    PDict [(''arg_types'', PList [PStr ''int''])]])"
    unfolding map_of_serialize_class widget_def by code_simp
  with ne constructor_signatures_sorted [OF ne] show ?thesis by blast
qed

section \<open>Sorted classes, superclasses and type parameters\<close>








section \<open>Counts and details\<close>

lemma distinct_map_sort_key: "distinct (map f (sort_key f xs)) = distinct (map f xs)"
proof -
  have "mset (map f (sort_key f xs)) = mset (map f xs)" by simp
  then show ?thesis by (rule mset_eq_imp_distinct_iff)
qed

lemma length_named_mapping:
  assumes "distinct (map nm xs)"
  shows "length (dict_items (map (\<lambda>x. (nm x, g x)) (sort_key nm xs))) = length xs"
proof -
  have "map fst (map (\<lambda>x. (nm x, g x)) (sort_key nm xs)) = map nm (sort_key nm xs)"
    by (simp add: comp_def)
  with assms have "distinct (map fst (map (\<lambda>x. (nm x, g x)) (sort_key nm xs)))"
    by (simp only: distinct_map_sort_key)
  then have "dict_items (map (\<lambda>x. (nm x, g x)) (sort_key nm xs)) = map (\<lambda>x. (nm x, g x)) (sort_key nm xs)"
    by (rule dict_items_distinct)
  then show ?thesis by simp
qed

lemma counts_match_class: "counts_match (serialize_class cls) class_count_detail"
  by (simp add: counts_match_def class_count_detail_def count_of_def py_len_def
      map_of_serialize_class)

lemma counts_match_class_template: "counts_match (serialize_class_template t) class_count_detail"
  by (simp add: counts_match_def class_count_detail_def count_of_def py_len_def
      map_of_serialize_class_template map_of_serialize_class)

lemma counts_match_module:
  assumes "distinct (map class_info.name (classes m))"
    and "distinct (map class_info.name (class_templates m))"
  shows "counts_match (serialize_module m) module_count_detail"
  using length_named_mapping [OF assms(1), of "\<lambda>cls. PODict (serialize_class cls)"]
    length_named_mapping [OF assms(2), of "\<lambda>tmpl. PODict (serialize_class_template tmpl)"]
  by (simp add: counts_match_def module_count_detail_def count_of_def py_len_def
      map_of_serialize_module)

text \<open>
  C3 as stated does not hold for every module: \<open>classes\<close> is a mapping keyed by class name,
  so two classes of one name take one key. The module below has two classes named \<open>Plain\<close>;
  its count of classes is 2 and its \<open>classes\<close> mapping has one entry.
\<close>

theorem duplicate_class_names_collapse:
  "count_of (serialize_module twice_plain) ''classes'' = Some (PInt 2) \<and>
   map_of (serialize_module twice_plain) ''classes''
     = Some (PODict [(''Plain'', PODict (serialize_class plain_class))]) \<and>
   \<not> counts_match (serialize_module twice_plain) module_count_detail"
  by (simp add: count_of_def map_of_serialize_module dict_items_def twice_plain_def
      plain_module_def plain_class_def counts_match_def module_count_detail_def py_len_def)

text \<open>
  C3, amended. For every class and class template, each count of the \<open>counts\<close> block equals
  the length of the detail list when the detail is present. For every module in which class
  names, and class template names, are unique, each count equals the length of the detail
  list or mapping when the detail is present; \<open>headers\<close> is the number of headers and has no
  detail.
\<close>

theorem counts_equal_detail_lengths:
  "distinct (map class_info.name (classes m)) \<Longrightarrow>
   distinct (map class_info.name (class_templates m)) \<Longrightarrow>
     counts_match (serialize_class cls) class_count_detail \<and>
     counts_match (serialize_class_template t) class_count_detail \<and>
     counts_match (serialize_module m) module_count_detail \<and>
     count_of (serialize_module m) ''headers'' = Some (PInt (int (length (headers m)))) \<and>
     map_of (serialize_module m) ''headers'' = None"
  by (simp add: counts_match_class counts_match_class_template counts_match_module
      count_of_def map_of_serialize_module)

theorem counts_equal_detail_lengths_witness:
  "distinct (map class_info.name (classes core)) \<and>
   distinct (map class_info.name (class_templates core)) \<and>
   details_present (serialize_class widget) class_count_detail \<and>
   details_present (serialize_class_template grid_template) class_count_detail \<and>
   details_present (serialize_module core) module_count_detail \<and>
   counts_match (serialize_class widget) class_count_detail \<and>
   counts_match (serialize_class_template grid_template) class_count_detail \<and>
   counts_match (serialize_module core) module_count_detail \<and>
   count_of (serialize_module core) ''headers'' = Some (PInt 2) \<and>
   count_of (serialize_module core) ''classes'' = Some (PInt 2)"
proof -
  have d: "distinct (map class_info.name (classes core))"
    "distinct (map class_info.name (class_templates core))"
    by (simp_all add: core_def widget_def plain_class_def)
  have p1: "details_present (serialize_class widget) class_count_detail"
    by (simp add: details_present_def class_count_detail_def map_of_serialize_class widget_def)
  have p2: "details_present (serialize_class_template grid_template) class_count_detail"
    by (simp add: details_present_def class_count_detail_def map_of_serialize_class_template
        map_of_serialize_class grid_template_def)
  have p3: "details_present (serialize_module core) module_count_detail"
    by (simp add: details_present_def module_count_detail_def map_of_serialize_module core_def)
  have h: "headers core = [''Core.hxx'', ''Widget.hxx'']" by (simp add: core_def)
  have c: "count_of (serialize_module core) ''classes'' = Some (PInt 2)"
    by (simp add: count_of_def map_of_serialize_module core_def)
  from counts_equal_detail_lengths [OF d, of widget grid_template] d p1 p2 p3 h c
  show ?thesis by simp
qed

section \<open>Order independence\<close>

lemma same_entities_names:
  assumes "same_entities nm R xs ys"
  shows "set (map nm xs) = set (map nm ys)"
proof -
  from assms have dx: "distinct (map nm xs)" and dy: "distinct (map nm ys)"
    and len: "length xs = length ys"
    and ex: "\<forall>x \<in> set xs. \<exists>y \<in> set ys. nm y = nm x \<and> R x y"
    by (auto simp: same_entities_def list_all_iff list_ex_iff)
  have sub: "set (map nm xs) \<subseteq> set (map nm ys)"
  proof
    fix n assume "n \<in> set (map nm xs)"
    then obtain x where x: "x \<in> set xs" "n = nm x" by auto
    with ex obtain y where "y \<in> set ys" "nm y = nm x" by blast
    with x show "n \<in> set (map nm ys)" by (metis image_eqI set_map)
  qed
  have "card (set (map nm xs)) = length xs" using dx by (simp add: distinct_card del: set_map)
  moreover have "card (set (map nm ys)) = length ys" using dy by (simp add: distinct_card del: set_map)
  ultimately have "card (set (map nm xs)) = card (set (map nm ys))" using len by simp
  with sub show ?thesis by (intro card_subset_eq) simp_all
qed

lemma same_entities_sorted:
  assumes "same_entities nm R xs ys"
  shows "list_all2 R (sort_key nm xs) (sort_key nm ys)"
proof -
  let ?sx = "sort_key nm xs" and ?sy = "sort_key nm ys"
  from assms have dx: "distinct (map nm xs)" and dy: "distinct (map nm ys)"
    and len: "length xs = length ys"
    and ex: "\<forall>x \<in> set xs. \<exists>y \<in> set ys. nm y = nm x \<and> R x y"
    by (auto simp: same_entities_def list_all_iff list_ex_iff)
  have "set (map nm ?sx) = set (map nm ?sy)"
    using same_entities_names [OF assms] by simp
  moreover have "sorted (map nm ?sx)" "sorted (map nm ?sy)" by simp_all
  moreover have "distinct (map nm ?sx)" "distinct (map nm ?sy)"
    using dx dy by (simp_all only: distinct_map_sort_key)
  ultimately have names: "map nm ?sx = map nm ?sy"
    by (intro sorted_distinct_set_unique)
  have inj: "inj_on nm (set ys)" using dy by (simp add: distinct_map)
  show ?thesis
  proof (rule list_all2_all_nthI)
    show "length ?sx = length ?sy" using len by simp
  next
    fix i assume i: "i < length ?sx"
    then have ix: "?sx ! i \<in> set xs" using nth_mem [of i ?sx] by simp
    from i len have iy: "?sy ! i \<in> set ys" using nth_mem [of i ?sy] by simp
    from ix ex obtain y where y: "y \<in> set ys" "nm y = nm (?sx ! i)" "R (?sx ! i) y" by blast
    from names i len have "nm (?sx ! i) = nm (?sy ! i)"
      by (metis length_map nth_map)
    with y(2) have "nm y = nm (?sy ! i)" by simp
    with inj y(1) iy have "y = ?sy ! i" by (auto dest: inj_onD)
    with y(3) show "R (?sx ! i) (?sy ! i)" by simp
  qed
qed

lemma same_entities_map:
  assumes "same_entities nm R xs ys"
    and "\<And>x y. R x y \<Longrightarrow> g x = g y"
  shows "map g (sort_key nm xs) = map g (sort_key nm ys)"
proof -
  from same_entities_sorted [OF assms(1)]
  have "list_all2 (\<lambda>x y. g x = g y) (sort_key nm xs) (sort_key nm ys)"
    by (rule list_all2_mono) (rule assms(2))
  then show ?thesis
    by (simp add: list_all2_conv_all_nth list_eq_iff_nth_eq)
qed

lemma same_entities_eq:
  assumes "same_entities nm (=) xs ys"
  shows "sort_key nm xs = sort_key nm ys"
  using same_entities_map [OF assms, of "\<lambda>x. x"] by simp

lemma same_entities_length: "same_entities nm R xs ys \<Longrightarrow> length xs = length ys"
  by (simp add: same_entities_def)

lemma same_entities_Nil: "same_entities nm R xs ys \<Longrightarrow> xs = [] \<longleftrightarrow> ys = []"
  by (auto simp: same_entities_def)

lemma same_class_serialize:
  assumes "same_class c1 c2"
  shows "serialize_class c1 = serialize_class c2"
proof -
  from assms have f: "same_entities field_info.name (=) (class_fields c1) (class_fields c2)"
    and e: "same_entities enum_info.name (=) (class_info.enums c1) (class_info.enums c2)"
    and rest: "class_info.name c1 = class_info.name c2" "abstract c1 = abstract c2"
      "superclass c1 = superclass c2" "constructors c1 = constructors c2"
      "methods c1 = methods c2" "static_methods c1 = static_methods c2"
      "class_info.operators c1 = class_info.operators c2"
    by (simp_all add: same_class_def)
  note same_entities_eq [OF f] same_entities_eq [OF e]
    same_entities_length [OF f] same_entities_length [OF e]
    same_entities_Nil [OF f] same_entities_Nil [OF e]
  with rest show ?thesis
    by (simp add: serialize_class_eq class_base_def)
qed

lemma same_class_serialize_template:
  assumes "same_class t1 t2"
  shows "serialize_class_template t1 = serialize_class_template t2"
proof -
  from assms have "class_info.more t1 = class_info.more t2" by (simp add: same_class_def)
  then have "type_params t1 = type_params t2"
    by (cases t1, cases t2) simp
  with same_class_serialize [OF assms] show ?thesis
    by (simp add: serialize_class_template_def)
qed

lemma same_class_name: "same_class c1 c2 \<Longrightarrow> class_info.name c1 = class_info.name c2"
  by (simp add: same_class_def)

lemma same_module_serialize:
  assumes "same_module m1 m2"
  shows "serialize_module m1 = serialize_module m2"
proof -
  from assms have c: "same_entities class_info.name same_class (classes m1) (classes m2)"
    and t: "same_entities class_info.name same_class (class_templates m1) (class_templates m2)"
    and e: "same_entities enum_info.name (=) (module_info.enums m1) (module_info.enums m2)"
    and rest: "module_info.name m1 = module_info.name m2"
      "dependencies_headers m1 = dependencies_headers m2" "namespaces m1 = namespaces m2"
      "headers m1 = headers m2" "typedefs m1 = typedefs m2" "functions m1 = functions m2"
      "module_info.operators m1 = module_info.operators m2"
    by (simp_all add: same_module_def)
  have cs: "map (\<lambda>cls. (class_info.name cls, PODict (serialize_class cls))) (sort_key class_info.name (classes m1))
      = map (\<lambda>cls. (class_info.name cls, PODict (serialize_class cls))) (sort_key class_info.name (classes m2))"
    by (rule same_entities_map [OF c]) (simp add: same_class_name same_class_serialize)
  have ts: "map (\<lambda>tmpl. (class_info.name tmpl, PODict (serialize_class_template tmpl)))
         (sort_key class_info.name (class_templates m1))
      = map (\<lambda>tmpl. (class_info.name tmpl, PODict (serialize_class_template tmpl)))
         (sort_key class_info.name (class_templates m2))"
    by (rule same_entities_map [OF t]) (simp add: same_class_name same_class_serialize_template)
  note cs ts same_entities_eq [OF e]
    same_entities_length [OF c] same_entities_length [OF t] same_entities_length [OF e]
    same_entities_Nil [OF c] same_entities_Nil [OF t] same_entities_Nil [OF e]
  with rest show ?thesis
    by (simp add: serialize_module_eq module_base_def)
qed

lemma same_module_name: "same_module m1 m2 \<Longrightarrow> module_info.name m1 = module_info.name m2"
  by (simp add: same_module_def)

lemma sum_list_sort_key: "sum_list (map f (sort_key k xs)) = sum_list (map (f :: 'a \<Rightarrow> nat) xs)"
proof -
  have "mset (map f (sort_key k xs)) = mset (map f xs)" by simp
  then have "sum_mset (mset (map f (sort_key k xs))) = sum_mset (mset (map f xs))" by (rule arg_cong)
  then show ?thesis by (simp only: sum_mset_sum_list)
qed

lemma same_snapshot_total:
  assumes "same_snapshot ms1 ms2"
    and "\<And>m1 m2. same_module m1 m2 \<Longrightarrow> f m1 = (f m2 :: nat)"
  shows "sum_list (map f ms1) = sum_list (map f ms2)"
proof -
  from assms(1) have s: "same_entities module_info.name same_module ms1 ms2"
    by (simp add: same_snapshot_def)
  have "map f (sort_key module_info.name ms1) = map f (sort_key module_info.name ms2)"
    by (rule same_entities_map [OF s]) (rule assms(2))
  then have "sum_list (map f (sort_key module_info.name ms1)) = sum_list (map f (sort_key module_info.name ms2))"
    by simp
  then show ?thesis by (simp only: sum_list_sort_key)
qed

lemma same_snapshot_summary:
  assumes "same_snapshot ms1 ms2"
  shows "summary ms1 = summary ms2"
proof -
  from assms have "length ms1 = length ms2"
    by (simp add: same_snapshot_def same_entities_length)
  moreover have "total_classes ms1 = total_classes ms2"
    unfolding total_classes_def
    by (rule same_snapshot_total [OF assms]) (auto simp: same_module_def dest: same_entities_length)
  moreover have "total_class_templates ms1 = total_class_templates ms2"
    unfolding total_class_templates_def
    by (rule same_snapshot_total [OF assms]) (auto simp: same_module_def dest: same_entities_length)
  moreover have "total_typedefs ms1 = total_typedefs ms2"
    unfolding total_typedefs_def
    by (rule same_snapshot_total [OF assms]) (simp add: same_module_def)
  moreover have "total_enums ms1 = total_enums ms2"
    unfolding total_enums_def
    by (rule same_snapshot_total [OF assms]) (auto simp: same_module_def dest: same_entities_length)
  moreover have "total_functions ms1 = total_functions ms2"
    unfolding total_functions_def
    by (rule same_snapshot_total [OF assms]) (simp add: same_module_def)
  ultimately show ?thesis
    by (simp add: summary_def total_modules_def)
qed

lemma same_gadget: "same_class gadget gadget_permuted"
  by (simp add: same_class_def same_entities_def gadget_permuted_def gadget_def
      size_field_def weight_field_def colour_rgb_def mode_enum_def)

lemma same_plain_class: "same_class plain_class plain_class"
  by (simp add: same_class_def same_entities_def plain_class_def)

lemma same_tools: "same_module tools tools_permuted"
  using same_gadget same_plain_class
  by (simp add: same_module_def same_entities_def tools_permuted_def tools_def
      gadget_permuted_def gadget_def plain_class_def colour_rgb_def mode_enum_def)

lemma same_plain_module: "same_module plain_module plain_module"
  by (simp add: same_module_def same_entities_def plain_module_def)

text \<open>
  C1. Two snapshots that hold the same modules, classes, class templates, enums and fields,
  in whatever order in each collection, with names unique in each collection, serialize to
  the same output: the serialized modules taken in order of module name are the same, the
  \<open>modules\<close> mapping is the same, and the whole document with its summary is the same.
\<close>

theorem order_independence:
  "same_snapshot ms1 ms2 \<Longrightarrow>
     map serialize_module (sort_key module_info.name ms1)
       = map serialize_module (sort_key module_info.name ms2) \<and>
     serialized_modules ms1 = serialized_modules ms2 \<and>
     dump_output ms1 = dump_output ms2"
proof -
  assume a: "same_snapshot ms1 ms2"
  then have s: "same_entities module_info.name same_module ms1 ms2"
    by (simp add: same_snapshot_def)
  have 1: "map serialize_module (sort_key module_info.name ms1)
       = map serialize_module (sort_key module_info.name ms2)"
    by (rule same_entities_map [OF s]) (rule same_module_serialize)
  have "map (\<lambda>module. (module_info.name module, PODict (serialize_module module)))
          (sort_key module_info.name ms1)
      = map (\<lambda>module. (module_info.name module, PODict (serialize_module module)))
          (sort_key module_info.name ms2)"
    by (rule same_entities_map [OF s]) (simp add: same_module_name same_module_serialize)
  then have 2: "serialized_modules ms1 = serialized_modules ms2"
    by (simp add: serialized_modules_def)
  with same_snapshot_summary [OF a] have 3: "dump_output ms1 = dump_output ms2"
    by (simp add: dump_output_def)
  from 1 2 3 show ?thesis by simp
qed

theorem order_independence_witness:
  "same_snapshot snapshot_a snapshot_b \<and> snapshot_a \<noteq> snapshot_b \<and>
   class_fields gadget \<noteq> class_fields gadget_permuted \<and>
   map serialize_module (sort_key module_info.name snapshot_a)
       = map serialize_module (sort_key module_info.name snapshot_b) \<and>
   dump_output snapshot_a = dump_output snapshot_b"
proof -
  have s: "same_snapshot snapshot_a snapshot_b"
    using same_tools same_plain_module
    by (simp add: same_snapshot_def same_entities_def snapshot_a_def snapshot_b_def
        tools_permuted_def tools_def plain_module_def)
  have d: "snapshot_a \<noteq> snapshot_b"
    by (simp add: snapshot_a_def snapshot_b_def tools_def plain_module_def)
  have f: "class_fields gadget \<noteq> class_fields gadget_permuted"
    by (simp add: gadget_def gadget_permuted_def size_field_def weight_field_def)
  from order_independence [OF s] s d f show ?thesis by simp
qed

section \<open>Empty collections\<close>

lemma map_of_serialize_module_lists:
  "map_of (serialize_module m) ''dependencies''
     = Some (PList (map PStr (sort (dependencies_headers m))))"
  "map_of (serialize_module m) ''namespaces'' = Some (PList (map PStr (sort (namespaces m))))"
  by (simp_all add: serialize_module_eq module_base_def)

lemma map_of_serialize_typedef:
  "map_of (serialize_typedef td) ''template_base'' =
     (case template_base td of None \<Rightarrow> None
      | Some b \<Rightarrow> if b = [] then None else Some (PStr b))"
  "map_of (serialize_typedef td) ''template_args'' =
     (case template_args td of None \<Rightarrow> None
      | Some as \<Rightarrow> if as = [] then None else Some (PList (map PStr as)))"
  by (simp_all add: serialize_typedef_def dict_items_def Let_def map_of_setitem
      split: option.splits)

lemma dump_output_Nil:
  "dump_output [] = PODict [(''summary'', PODict (summary [])), (''modules'', PODict [])]"
  by (simp add: dump_output_def serialized_modules_def dict_items_def)

text \<open>
  C2 as stated does not hold for every collection of every entity: the list of superclasses
  of a class and the lists of dependencies and namespaces of a module are emitted without a
  test, so an empty one is emitted as an empty list. The class and the module below have
  none of them, and each key is present with the empty list.
\<close>

theorem empty_lists_emitted:
  "superclass plain_class = [] \<and>
   map_of (serialize_class plain_class) ''superclass'' = Some (PList []) \<and>
   dependencies_headers plain_module = [] \<and>
   map_of (serialize_module plain_module) ''dependencies'' = Some (PList []) \<and>
   namespaces plain_module = [] \<and>
   map_of (serialize_module plain_module) ''namespaces'' = Some (PList [])"
  by (simp add: map_of_serialize_class map_of_serialize_module_lists plain_class_def
      plain_module_def)

text \<open>
  C2, amended. The collections of child entities emit no key when empty: for a class and a
  class template the keys \<open>fields\<close>, \<open>enums\<close>, \<open>constructor_signatures\<close>, \<open>method_names\<close>,
  \<open>static_method_names\<close> and \<open>operator_names\<close>; for a module the keys \<open>classes\<close>,
  \<open>class_templates\<close>, \<open>typedefs\<close>, \<open>enums\<close>, \<open>function_names\<close> and \<open>operator_names\<close>; for
  a typedef the keys \<open>template_base\<close> and \<open>template_args\<close>, also when the attribute is
  missing. A class with one field has under \<open>fields\<close> the list of that one serialized
  field. The other lists are always emitted, as an empty list or mapping when empty:
  \<open>superclass\<close> of a class and of a class template, \<open>type_params\<close> of a class template,
  \<open>dependencies\<close> and \<open>namespaces\<close> of a module, \<open>values\<close> of an enum, and the top-level
  \<open>modules\<close> mapping of the document.
\<close>

theorem empty_collections_omitted:
  "(class_fields cls = [] \<longrightarrow> map_of (serialize_class cls) ''fields'' = None) \<and>
   (class_info.enums cls = [] \<longrightarrow> map_of (serialize_class cls) ''enums'' = None) \<and>
   (constructors cls = [] \<longrightarrow> map_of (serialize_class cls) ''constructor_signatures'' = None) \<and>
   (methods cls = [] \<longrightarrow> map_of (serialize_class cls) ''method_names'' = None) \<and>
   (static_methods cls = [] \<longrightarrow> map_of (serialize_class cls) ''static_method_names'' = None) \<and>
   (class_info.operators cls = [] \<longrightarrow> map_of (serialize_class cls) ''operator_names'' = None) \<and>
   (class_fields t = [] \<longrightarrow> map_of (serialize_class_template t) ''fields'' = None) \<and>
   (class_info.enums t = [] \<longrightarrow> map_of (serialize_class_template t) ''enums'' = None) \<and>
   (constructors t = [] \<longrightarrow> map_of (serialize_class_template t) ''constructor_signatures'' = None) \<and>
   (methods t = [] \<longrightarrow> map_of (serialize_class_template t) ''method_names'' = None) \<and>
   (static_methods t = [] \<longrightarrow> map_of (serialize_class_template t) ''static_method_names'' = None) \<and>
   (class_info.operators t = [] \<longrightarrow> map_of (serialize_class_template t) ''operator_names'' = None) \<and>
   (classes m = [] \<longrightarrow> map_of (serialize_module m) ''classes'' = None) \<and>
   (class_templates m = [] \<longrightarrow> map_of (serialize_module m) ''class_templates'' = None) \<and>
   (typedefs m = [] \<longrightarrow> map_of (serialize_module m) ''typedefs'' = None) \<and>
   (module_info.enums m = [] \<longrightarrow> map_of (serialize_module m) ''enums'' = None) \<and>
   (functions m = [] \<longrightarrow> map_of (serialize_module m) ''function_names'' = None) \<and>
   (module_info.operators m = [] \<longrightarrow> map_of (serialize_module m) ''operator_names'' = None) \<and>
   (class_fields cls1 = [f] \<longrightarrow>
      map_of (serialize_class cls1) ''fields'' = Some (PList [PDict (serialize_field f)])) \<and>
   (template_base td = None \<or> template_base td = Some [] \<longrightarrow>
      map_of (serialize_typedef td) ''template_base'' = None) \<and>
   (template_args td = None \<or> template_args td = Some [] \<longrightarrow>
      map_of (serialize_typedef td) ''template_args'' = None) \<and>
   (superclass cls = [] \<longrightarrow> map_of (serialize_class cls) ''superclass'' = Some (PList [])) \<and>
   (superclass t = [] \<longrightarrow> map_of (serialize_class_template t) ''superclass'' = Some (PList [])) \<and>
   (type_params t = [] \<longrightarrow> map_of (serialize_class_template t) ''type_params'' = Some (PList [])) \<and>
   (dependencies_headers m = [] \<longrightarrow>
      map_of (serialize_module m) ''dependencies'' = Some (PList [])) \<and>
   (namespaces m = [] \<longrightarrow> map_of (serialize_module m) ''namespaces'' = Some (PList [])) \<and>
   (enum_info.values e = [] \<longrightarrow> map_of (serialize_enum e) ''values'' = Some (PList [])) \<and>
   dump_output [] = PODict [(''summary'', PODict (summary [])), (''modules'', PODict [])]"
proof -
  have guarded:
   "(class_fields cls = [] \<longrightarrow> map_of (serialize_class cls) ''fields'' = None) \<and>
   (class_info.enums cls = [] \<longrightarrow> map_of (serialize_class cls) ''enums'' = None) \<and>
   (constructors cls = [] \<longrightarrow> map_of (serialize_class cls) ''constructor_signatures'' = None) \<and>
   (methods cls = [] \<longrightarrow> map_of (serialize_class cls) ''method_names'' = None) \<and>
   (static_methods cls = [] \<longrightarrow> map_of (serialize_class cls) ''static_method_names'' = None) \<and>
   (class_info.operators cls = [] \<longrightarrow> map_of (serialize_class cls) ''operator_names'' = None) \<and>
   (class_fields t = [] \<longrightarrow> map_of (serialize_class_template t) ''fields'' = None) \<and>
   (class_info.enums t = [] \<longrightarrow> map_of (serialize_class_template t) ''enums'' = None) \<and>
   (constructors t = [] \<longrightarrow> map_of (serialize_class_template t) ''constructor_signatures'' = None) \<and>
   (methods t = [] \<longrightarrow> map_of (serialize_class_template t) ''method_names'' = None) \<and>
   (static_methods t = [] \<longrightarrow> map_of (serialize_class_template t) ''static_method_names'' = None) \<and>
   (class_info.operators t = [] \<longrightarrow> map_of (serialize_class_template t) ''operator_names'' = None) \<and>
   (classes m = [] \<longrightarrow> map_of (serialize_module m) ''classes'' = None) \<and>
   (class_templates m = [] \<longrightarrow> map_of (serialize_module m) ''class_templates'' = None) \<and>
   (typedefs m = [] \<longrightarrow> map_of (serialize_module m) ''typedefs'' = None) \<and>
   (module_info.enums m = [] \<longrightarrow> map_of (serialize_module m) ''enums'' = None) \<and>
   (functions m = [] \<longrightarrow> map_of (serialize_module m) ''function_names'' = None) \<and>
   (module_info.operators m = [] \<longrightarrow> map_of (serialize_module m) ''operator_names'' = None) \<and>
   (class_fields cls1 = [f] \<longrightarrow>
      map_of (serialize_class cls1) ''fields'' = Some (PList [PDict (serialize_field f)]))"
    by (simp add: map_of_serialize_class map_of_serialize_module map_of_serialize_class_template)
  have typedefs:
   "(template_base td = None \<or> template_base td = Some [] \<longrightarrow>
      map_of (serialize_typedef td) ''template_base'' = None) \<and>
   (template_args td = None \<or> template_args td = Some [] \<longrightarrow>
      map_of (serialize_typedef td) ''template_args'' = None)"
    by (auto simp: map_of_serialize_typedef)
  have always:
   "(superclass cls = [] \<longrightarrow> map_of (serialize_class cls) ''superclass'' = Some (PList [])) \<and>
   (superclass t = [] \<longrightarrow> map_of (serialize_class_template t) ''superclass'' = Some (PList [])) \<and>
   (type_params t = [] \<longrightarrow> map_of (serialize_class_template t) ''type_params'' = Some (PList [])) \<and>
   (dependencies_headers m = [] \<longrightarrow>
      map_of (serialize_module m) ''dependencies'' = Some (PList [])) \<and>
   (namespaces m = [] \<longrightarrow> map_of (serialize_module m) ''namespaces'' = Some (PList [])) \<and>
   (enum_info.values e = [] \<longrightarrow> map_of (serialize_enum e) ''values'' = Some (PList []))"
    by (simp add: map_of_serialize_class map_of_serialize_class_template
        map_of_serialize_module_lists serialize_enum_eq enum_values_def)
  from guarded typedefs always dump_output_Nil show ?thesis
    by (elim conjE, intro conjI) assumption+
qed

theorem empty_collections_omitted_witness:
  "class_fields plain_class = [] \<and> class_info.enums plain_class = [] \<and>
   constructors plain_class = [] \<and> methods plain_class = [] \<and>
   static_methods plain_class = [] \<and> class_info.operators plain_class = [] \<and>
   class_fields plain_template = [] \<and> class_info.enums plain_template = [] \<and>
   constructors plain_template = [] \<and> methods plain_template = [] \<and>
   static_methods plain_template = [] \<and> class_info.operators plain_template = [] \<and>
   classes plain_module = [] \<and> class_templates plain_module = [] \<and>
   typedefs plain_module = [] \<and> module_info.enums plain_module = [] \<and>
   functions plain_module = [] \<and> module_info.operators plain_module = [] \<and>
   class_fields widget = [size_field] \<and>
   template_base size_typedef = None \<and> template_args size_typedef = None \<and>
   superclass plain_class = [] \<and> superclass plain_template = [] \<and>
   type_params plain_template = [] \<and>
   dependencies_headers plain_module = [] \<and> namespaces plain_module = [] \<and>
   enum_info.values unit_enum = [] \<and>
   map_of (serialize_class plain_class) ''fields'' = None \<and>
   map_of (serialize_class plain_class) ''method_names'' = None \<and>
   map_of (serialize_class_template plain_template) ''fields'' = None \<and>
   map_of (serialize_module plain_module) ''classes'' = None \<and>
   map_of (serialize_module plain_module) ''function_names'' = None \<and>
   map_of (serialize_class widget) ''fields'' = Some (PList [PDict (serialize_field size_field)]) \<and>
   map_of (serialize_typedef size_typedef) ''template_args'' = None \<and>
   map_of (serialize_class plain_class) ''superclass'' = Some (PList []) \<and>
   map_of (serialize_class_template plain_template) ''type_params'' = Some (PList []) \<and>
   map_of (serialize_module plain_module) ''dependencies'' = Some (PList []) \<and>
   map_of (serialize_enum unit_enum) ''values'' = Some (PList [])"
proof -
  have c: "class_fields plain_class = [] \<and> class_info.enums plain_class = [] \<and>
   constructors plain_class = [] \<and> methods plain_class = [] \<and>
   static_methods plain_class = [] \<and> class_info.operators plain_class = [] \<and>
   superclass plain_class = []"
    by (simp add: plain_class_def)
  have t: "class_fields plain_template = [] \<and> class_info.enums plain_template = [] \<and>
   constructors plain_template = [] \<and> methods plain_template = [] \<and>
   static_methods plain_template = [] \<and> class_info.operators plain_template = [] \<and>
   superclass plain_template = [] \<and> type_params plain_template = []"
    by (simp add: plain_template_def)
  have m: "classes plain_module = [] \<and> class_templates plain_module = [] \<and>
   typedefs plain_module = [] \<and> module_info.enums plain_module = [] \<and>
   functions plain_module = [] \<and> module_info.operators plain_module = [] \<and>
   dependencies_headers plain_module = [] \<and> namespaces plain_module = []"
    by (simp add: plain_module_def)
  have w: "class_fields widget = [size_field]"
    by (simp add: widget_def)
  have td: "template_base size_typedef = None \<and> template_args size_typedef = None"
    by (simp add: size_typedef_def)
  have e: "enum_info.values unit_enum = []" by (simp add: unit_enum_def)
  from empty_collections_omitted [where cls = plain_class and t = plain_template
      and m = plain_module and ?cls1.0 = widget and f = size_field and td = size_typedef
      and e = unit_enum] c t m w td e
  show ?thesis by simp
qed

section \<open>Failing runs\<close>

lemma files_print [simp]: "files (print s w) = files w"
  by (simp add: print_def)

lemma files_access [simp]: "files (access c w) = files w"
  by (simp add: access_def)

lemma accesses_print [simp]: "accesses (print s w) = accesses w"
  by (simp add: print_def)

lemma stdout_print [simp]: "stdout (print s w) = stdout w @ [s]"
  by (simp add: print_def)

lemma files_print_summary [simp]: "files (print_summary ms w) = files w"
  by (simp add: print_summary_def Let_def)

lemma load_modules_print [simp]: "load_modules P p (print s w) = load_modules P p w"
  by (simp add: load_modules_def)

lemma load_modules_access [simp]: "load_modules P p (access c w) = load_modules P p w"
  by (simp add: load_modules_def)

lemma load_modules_exists: "load_modules P p w = Inr ms \<Longrightarrow> \<exists>n. files w p = Some n"
  by (auto simp: load_modules_def split: option.splits)

lemma write_yaml_files:
  "write_yaml P out v w = (r, w') \<Longrightarrow>
     (files w' = files w \<and> r \<noteq> Inr ()) \<or>
     (\<exists>written. files w' = (files w)(out \<mapsto> File written) \<and>
        ((\<exists>e. r = Inl e \<and> yaml_dump P v = (written, Some e)) \<or>
         (r = Inr () \<and> yaml_dump P v = (written, None))))"
  by (auto simp: write_yaml_def Let_def split: if_splits prod.splits option.splits)

lemma write_yaml_open_fails:
  "files w out = Some Dir \<or> \<not> writable P out \<Longrightarrow>
     \<exists>e w'. write_yaml P out v w = (Inl e, w') \<and> files w' = files w"
  by (auto simp: write_yaml_def Let_def)

lemma write_yaml_dump_raises:
  "files w out \<noteq> Some Dir \<Longrightarrow> writable P out \<Longrightarrow> yaml_dump P v = (written, Some e) \<Longrightarrow>
     \<exists>w'. write_yaml P out v w = (Inl e, w') \<and> files w' = (files w)(out \<mapsto> File written)"
  by (simp add: write_yaml_def Let_def)

lemma write_yaml_dump_returns:
  "files w out \<noteq> Some Dir \<Longrightarrow> writable P out \<Longrightarrow> yaml_dump P v = (written, None) \<Longrightarrow>
     \<exists>w'. write_yaml P out v w = (Inr (), w') \<and> files w' = (files w)(out \<mapsto> File written)"
  by (simp add: write_yaml_def Let_def)

lemma dump_parsed_pkl_files:
  "dump_parsed_pkl P pkl out w = (Inl e, w') \<Longrightarrow>
     files w' = files w \<or>
     (\<exists>ms written. load_modules P pkl w = Inr ms \<and>
        yaml_dump P (dump_output ms) = (written, Some e) \<and>
        files w' = (files w)(out \<mapsto> File written))"
  by (auto simp: dump_parsed_pkl_def Let_def split: sum.splits prod.splits
      dest!: write_yaml_files)

lemma dump_parsed_pkl_load_fails:
  "load_modules P pkl w = Inl e \<Longrightarrow>
     \<exists>w'. dump_parsed_pkl P pkl out w = (Inl e, w') \<and> files w' = files w"
  by (simp add: dump_parsed_pkl_def Let_def)

lemma dump_parsed_pkl_loaded:
  assumes "load_modules P pkl w = Inr ms"
  shows "\<exists>w0. files w0 = files w \<and>
     dump_parsed_pkl P pkl out w =
       (case write_yaml P out (dump_output ms) w0 of
          (Inl e, w') \<Rightarrow> (Inl e, w')
        | (Inr u, w') \<Rightarrow> (Inr (), print_summary ms w'))"
proof (intro exI conjI)
  let ?w0 = "print (''Writing to '' @ out @ ''...'')
     (print ''Serializing modules...''
       (print (''Found '' @ str_nat (length ms) @ '' modules'')
         (access (OpenRead pkl) (print (''Loading '' @ pkl @ ''...'') w))))"
  show "files ?w0 = files w" by simp
  show "dump_parsed_pkl P pkl out w =
       (case write_yaml P out (dump_output ms) ?w0 of
          (Inl e, w') \<Rightarrow> (Inl e, w')
        | (Inr u, w') \<Rightarrow> (Inr (), print_summary ms w'))"
    unfolding dump_parsed_pkl_def Let_def using assms by simp
qed

lemma dump_parsed_pkl_open_fails:
  assumes "load_modules P pkl w = Inr ms"
    and "files w out = Some Dir \<or> \<not> writable P out"
  shows "\<exists>e w'. dump_parsed_pkl P pkl out w = (Inl e, w') \<and> files w' = files w"
proof -
  from dump_parsed_pkl_loaded [OF assms(1), of out]
  obtain w0 where w0: "files w0 = files w"
    and d: "dump_parsed_pkl P pkl out w =
       (case write_yaml P out (dump_output ms) w0 of
          (Inl e, w') \<Rightarrow> (Inl e, w')
        | (Inr u, w') \<Rightarrow> (Inr (), print_summary ms w'))" by blast
  from assms(2) w0 have "files w0 out = Some Dir \<or> \<not> writable P out" by simp
  from write_yaml_open_fails [OF this, of "dump_output ms"]
  obtain e w' where "write_yaml P out (dump_output ms) w0 = (Inl e, w')" "files w' = files w0"
    by blast
  with d w0 show ?thesis by simp
qed

lemma dump_parsed_pkl_dump_raises:
  assumes "load_modules P pkl w = Inr ms"
    and "files w out \<noteq> Some Dir" and "writable P out"
    and "yaml_dump P (dump_output ms) = (written, Some e)"
  shows "\<exists>w'. dump_parsed_pkl P pkl out w = (Inl e, w') \<and> files w' = (files w)(out \<mapsto> File written)"
proof -
  from dump_parsed_pkl_loaded [OF assms(1), of out]
  obtain w0 where w0: "files w0 = files w"
    and d: "dump_parsed_pkl P pkl out w =
       (case write_yaml P out (dump_output ms) w0 of
          (Inl e, w') \<Rightarrow> (Inl e, w')
        | (Inr u, w') \<Rightarrow> (Inr (), print_summary ms w'))" by blast
  from assms(2) w0 have "files w0 out \<noteq> Some Dir" by simp
  from write_yaml_dump_raises [OF this assms(3,4)]
  obtain w' where "write_yaml P out (dump_output ms) w0 = (Inl e, w')"
    "files w' = (files w0)(out \<mapsto> File written)"
    by blast
  with d w0 show ?thesis by simp
qed

lemma dump_parsed_pkl_succeeds:
  assumes "load_modules P pkl w = Inr ms"
    and "files w out \<noteq> Some Dir" and "writable P out"
    and "yaml_dump P (dump_output ms) = (written, None)"
  shows "\<exists>w'. dump_parsed_pkl P pkl out w = (Inr (), w') \<and> files w' = (files w)(out \<mapsto> File written)"
proof -
  from dump_parsed_pkl_loaded [OF assms(1), of out]
  obtain w0 where w0: "files w0 = files w"
    and d: "dump_parsed_pkl P pkl out w =
       (case write_yaml P out (dump_output ms) w0 of
          (Inl e, w') \<Rightarrow> (Inl e, w')
        | (Inr u, w') \<Rightarrow> (Inr (), print_summary ms w'))" by blast
  from assms(2) w0 have "files w0 out \<noteq> Some Dir" by simp
  from write_yaml_dump_returns [OF this assms(3,4)]
  obtain w' where "write_yaml P out (dump_output ms) w0 = (Inr (), w')"
    "files w' = (files w0)(out \<mapsto> File written)"
    by blast
  with d w0 show ?thesis by simp
qed

lemma main_usage:
  "length argv < 2 \<Longrightarrow> main P argv w = (1, w\<lparr>stdout := stdout w @ usage\<rparr>)"
  by (simp add: main_def usage_def print_def)

lemma main_missing:
  "\<not> length argv < 2 \<Longrightarrow> files w (Path P (argv ! 1)) = None \<Longrightarrow>
     main P argv w
       = (1, print (''Error: File not found: '' @ Path P (argv ! 1))
               (access (Exists (Path P (argv ! 1))) w))"
  by (simp add: main_def Let_def)

lemma main_no_output_path:
  "\<not> length argv < 2 \<Longrightarrow> files w (Path P (argv ! 1)) = Some n \<Longrightarrow>
   output_path_of P argv = Inl e \<Longrightarrow>
     main P argv w = (1, access (Exists (Path P (argv ! 1))) w)"
  by (simp add: main_def Let_def)

lemma main_run:
  "\<not> length argv < 2 \<Longrightarrow> files w (Path P (argv ! 1)) = Some n \<Longrightarrow>
   output_path_of P argv = Inr out \<Longrightarrow>
   dump_parsed_pkl P (Path P (argv ! 1)) out (access (Exists (Path P (argv ! 1))) w) = (r, w') \<Longrightarrow>
     main P argv w = (case r of Inl e \<Rightarrow> (1, w') | Inr _ \<Rightarrow> (0, w'))"
  by (simp add: main_def Let_def)

lemma main_failure:
  assumes "fst (main P argv w) \<noteq> 0"
  shows "fst (main P argv w) = 1 \<and>
      (files (snd (main P argv w)) = files w \<or>
       (\<exists>ms out written e.
          load_modules P (Path P (argv ! 1)) w = Inr ms \<and>
          output_path_of P argv = Inr out \<and>
          yaml_dump P (dump_output ms) = (written, Some e) \<and>
          files (snd (main P argv w)) = (files w)(out \<mapsto> File written)))"
proof (cases "length argv < 2")
  case True
  then show ?thesis by (simp add: main_usage)
next
  case long: False
  show ?thesis
  proof (cases "files w (Path P (argv ! 1))")
    case None
    with long show ?thesis by (simp add: main_missing)
  next
    case (Some n)
    show ?thesis
    proof (cases "output_path_of P argv")
      case (Inl e)
      with long Some show ?thesis by (simp add: main_no_output_path)
    next
      case (Inr out)
      obtain r w' where d: "dump_parsed_pkl P (Path P (argv ! 1)) out
          (access (Exists (Path P (argv ! 1))) w) = (r, w')"
        by (cases "dump_parsed_pkl P (Path P (argv ! 1)) out (access (Exists (Path P (argv ! 1))) w)")
      note m = main_run [OF long Some Inr d]
      with assms obtain e where r: "r = Inl e"
        by (cases r) auto
      from dump_parsed_pkl_files [OF d [unfolded r]]
      have "files w' = files w \<or>
        (\<exists>ms written. load_modules P (Path P (argv ! 1)) w = Inr ms \<and>
           yaml_dump P (dump_output ms) = (written, Some e) \<and>
           files w' = (files w)(out \<mapsto> File written))"
        by simp
      with m r Inr show ?thesis by auto
    qed
  qed
qed

lemma main_load_failure:
  assumes "2 \<le> length argv" and "load_modules P (Path P (argv ! 1)) w = Inl e"
  shows "fst (main P argv w) = 1 \<and> files (snd (main P argv w)) = files w"
proof -
  from assms(1) have long: "\<not> length argv < 2" by simp
  show ?thesis
  proof (cases "files w (Path P (argv ! 1))")
    case None
    with long show ?thesis by (simp add: main_missing)
  next
    case (Some n)
    show ?thesis
    proof (cases "output_path_of P argv")
      case (Inl x)
      with long Some show ?thesis by (simp add: main_no_output_path)
    next
      case (Inr out)
      from assms(2) have "load_modules P (Path P (argv ! 1)) (access (Exists (Path P (argv ! 1))) w) = Inl e"
        by simp
      from dump_parsed_pkl_load_fails [OF this, of out]
      obtain w' where d: "dump_parsed_pkl P (Path P (argv ! 1)) out
          (access (Exists (Path P (argv ! 1))) w) = (Inl e, w')"
        and f: "files w' = files w" by auto
      from main_run [OF long Some Inr d] f show ?thesis by simp
    qed
  qed
qed

lemma main_output_path_failure:
  assumes "2 \<le> length argv" and "files w (Path P (argv ! 1)) \<noteq> None"
    and "output_path_of P argv = Inl e"
  shows "fst (main P argv w) = 1 \<and> files (snd (main P argv w)) = files w"
proof -
  from assms(1) have long: "\<not> length argv < 2" by simp
  from assms(2) obtain n where "files w (Path P (argv ! 1)) = Some n" by blast
  from main_no_output_path [OF long this assms(3)] show ?thesis by simp
qed

lemma main_open_failure:
  assumes "2 \<le> length argv" and "load_modules P (Path P (argv ! 1)) w = Inr ms"
    and "output_path_of P argv = Inr out"
    and "files w out = Some Dir \<or> \<not> writable P out"
  shows "fst (main P argv w) = 1 \<and> files (snd (main P argv w)) = files w"
proof -
  let ?w = "access (Exists (Path P (argv ! 1))) w"
  from assms(1) have long: "\<not> length argv < 2" by simp
  from load_modules_exists [OF assms(2)] obtain n where n: "files w (Path P (argv ! 1)) = Some n" ..
  from assms(2) have l: "load_modules P (Path P (argv ! 1)) ?w = Inr ms" by simp
  from assms(4) have "files ?w out = Some Dir \<or> \<not> writable P out" by simp
  from dump_parsed_pkl_open_fails [OF l this]
  obtain e w' where d: "dump_parsed_pkl P (Path P (argv ! 1)) out ?w = (Inl e, w')"
    and f: "files w' = files ?w" by blast
  from main_run [OF long n assms(3) d] f show ?thesis by simp
qed

lemma main_dump_failure:
  assumes "2 \<le> length argv" and "load_modules P (Path P (argv ! 1)) w = Inr ms"
    and "output_path_of P argv = Inr out"
    and "files w out \<noteq> Some Dir" and "writable P out"
    and "yaml_dump P (dump_output ms) = (written, Some e)"
  shows "fst (main P argv w) = 1 \<and> files (snd (main P argv w)) = (files w)(out \<mapsto> File written)"
proof -
  let ?w = "access (Exists (Path P (argv ! 1))) w"
  from assms(1) have long: "\<not> length argv < 2" by simp
  from load_modules_exists [OF assms(2)] obtain n where n: "files w (Path P (argv ! 1)) = Some n" ..
  from assms(2) have l: "load_modules P (Path P (argv ! 1)) ?w = Inr ms" by simp
  from assms(4) have "files ?w out \<noteq> Some Dir" by simp
  from dump_parsed_pkl_dump_raises [OF l this assms(5,6)]
  obtain w' where d: "dump_parsed_pkl P (Path P (argv ! 1)) out ?w = (Inl e, w')"
    and f: "files w' = (files ?w)(out \<mapsto> File written)" by blast
  from main_run [OF long n assms(3) d] f show ?thesis by simp
qed

lemma main_success:
  assumes "2 \<le> length argv" and "load_modules P (Path P (argv ! 1)) w = Inr ms"
    and "output_path_of P argv = Inr out"
    and "files w out \<noteq> Some Dir" and "writable P out"
    and "yaml_dump P (dump_output ms) = (written, None)"
  shows "fst (main P argv w) = 0 \<and> files (snd (main P argv w)) = (files w)(out \<mapsto> File written)"
proof -
  let ?w = "access (Exists (Path P (argv ! 1))) w"
  from assms(1) have long: "\<not> length argv < 2" by simp
  from load_modules_exists [OF assms(2)] obtain n where n: "files w (Path P (argv ! 1)) = Some n" ..
  from assms(2) have l: "load_modules P (Path P (argv ! 1)) ?w = Inr ms" by simp
  from assms(4) have "files ?w out \<noteq> Some Dir" by simp
  from dump_parsed_pkl_succeeds [OF l this assms(5,6)]
  obtain w' where d: "dump_parsed_pkl P (Path P (argv ! 1)) out ?w = (Inr (), w')"
    and f: "files w' = (files ?w)(out \<mapsto> File written)" by blast
  from main_run [OF long n assms(3) d] f show ?thesis by simp
qed

text \<open>
  C8 as stated does not hold when the failing step is the serialization: the destination is
  opened for writing, which creates or empties it, before \<open>yaml.dump\<close> runs. In the run
  below \<open>yaml.dump\<close> raises after writing \<open>summary:\<close>; the process ends with status 1 and
  the destination, which did not exist, now exists with that partial text.
\<close>

theorem partial_output_on_serialization_failure:
  "fst (main broken_yaml dump_args snapshot_only) = 1 \<and>
   files snapshot_only ''parsed_dump.yml'' = None \<and>
   files (snd (main broken_yaml dump_args snapshot_only)) ''parsed_dump.yml''
     = Some (File ''summary:'')"
  by (simp add: main_def dump_parsed_pkl_def write_yaml_def load_modules_def output_path_of_def
      broken_yaml_def working_def dump_args_def snapshot_only_def access_def print_def Let_def
      posix_path_def)

text \<open>
  C8, amended. A run with a snapshot argument ends with status 1 and leaves every file as it
  was when opening or decoding the snapshot fails, when the default output path cannot be
  formed, and when the destination cannot be opened for writing. It ends with status 1 and
  leaves in the destination the text written so far when \<open>yaml.dump\<close> raises: the
  destination was created or emptied when it was opened. It ends with status 0, with the
  whole text in the destination, when no step fails. Conversely, every run that does not
  end with status 0 ends with status 1, and its files are as before unless \<open>yaml.dump\<close>
  raised.
\<close>

theorem failure_exit_status_and_destination:
  "(fst (main P argv w) \<noteq> 0 \<longrightarrow>
      fst (main P argv w) = 1 \<and>
      (files (snd (main P argv w)) = files w \<or>
       (\<exists>ms out written e.
          load_modules P (Path P (argv ! 1)) w = Inr ms \<and>
          output_path_of P argv = Inr out \<and>
          yaml_dump P (dump_output ms) = (written, Some e) \<and>
          files (snd (main P argv w)) = (files w)(out \<mapsto> File written)))) \<and>
   (2 \<le> length argv \<and> (\<exists>e. load_modules P (Path P (argv ! 1)) w = Inl e) \<longrightarrow>
      fst (main P argv w) = 1 \<and> files (snd (main P argv w)) = files w) \<and>
   (2 \<le> length argv \<and> files w (Path P (argv ! 1)) \<noteq> None \<and>
    (\<exists>e. output_path_of P argv = Inl e) \<longrightarrow>
      fst (main P argv w) = 1 \<and> files (snd (main P argv w)) = files w) \<and>
   (2 \<le> length argv \<and> load_modules P (Path P (argv ! 1)) w = Inr ms \<and>
    output_path_of P argv = Inr out \<and>
    (files w out = Some Dir \<or> \<not> writable P out) \<longrightarrow>
      fst (main P argv w) = 1 \<and> files (snd (main P argv w)) = files w) \<and>
   (2 \<le> length argv \<and> load_modules P (Path P (argv ! 1)) w = Inr ms \<and>
    output_path_of P argv = Inr out \<and>
    files w out \<noteq> Some Dir \<and> writable P out \<and>
    (\<exists>e. yaml_dump P (dump_output ms) = (written, Some e)) \<longrightarrow>
      fst (main P argv w) = 1 \<and>
      files (snd (main P argv w)) = (files w)(out \<mapsto> File written)) \<and>
   (2 \<le> length argv \<and> load_modules P (Path P (argv ! 1)) w = Inr ms \<and>
    output_path_of P argv = Inr out \<and>
    files w out \<noteq> Some Dir \<and> writable P out \<and>
    yaml_dump P (dump_output ms) = (written, None) \<longrightarrow>
      fst (main P argv w) = 0 \<and>
      files (snd (main P argv w)) = (files w)(out \<mapsto> File written))"
proof (intro conjI)
  show "fst (main P argv w) \<noteq> 0 \<longrightarrow>
      fst (main P argv w) = 1 \<and>
      (files (snd (main P argv w)) = files w \<or>
       (\<exists>ms out written e.
          load_modules P (Path P (argv ! 1)) w = Inr ms \<and>
          output_path_of P argv = Inr out \<and>
          yaml_dump P (dump_output ms) = (written, Some e) \<and>
          files (snd (main P argv w)) = (files w)(out \<mapsto> File written)))"
    using main_failure [of P argv w] by blast
  show "2 \<le> length argv \<and> (\<exists>e. load_modules P (Path P (argv ! 1)) w = Inl e) \<longrightarrow>
      fst (main P argv w) = 1 \<and> files (snd (main P argv w)) = files w"
    using main_load_failure [of argv P w] by blast
  show "2 \<le> length argv \<and> files w (Path P (argv ! 1)) \<noteq> None \<and>
    (\<exists>e. output_path_of P argv = Inl e) \<longrightarrow>
      fst (main P argv w) = 1 \<and> files (snd (main P argv w)) = files w"
    using main_output_path_failure [of argv w P] by blast
  show "2 \<le> length argv \<and> load_modules P (Path P (argv ! 1)) w = Inr ms \<and>
    output_path_of P argv = Inr out \<and>
    (files w out = Some Dir \<or> \<not> writable P out) \<longrightarrow>
      fst (main P argv w) = 1 \<and> files (snd (main P argv w)) = files w"
    using main_open_failure [of argv P w ms out] by blast
  show "2 \<le> length argv \<and> load_modules P (Path P (argv ! 1)) w = Inr ms \<and>
    output_path_of P argv = Inr out \<and>
    files w out \<noteq> Some Dir \<and> writable P out \<and>
    (\<exists>e. yaml_dump P (dump_output ms) = (written, Some e)) \<longrightarrow>
      fst (main P argv w) = 1 \<and>
      files (snd (main P argv w)) = (files w)(out \<mapsto> File written)"
    using main_dump_failure [of argv P w ms out written] by blast
  show "2 \<le> length argv \<and> load_modules P (Path P (argv ! 1)) w = Inr ms \<and>
    output_path_of P argv = Inr out \<and>
    files w out \<noteq> Some Dir \<and> writable P out \<and>
    yaml_dump P (dump_output ms) = (written, None) \<longrightarrow>
      fst (main P argv w) = 0 \<and>
      files (snd (main P argv w)) = (files w)(out \<mapsto> File written)"
    using main_success [of argv P w ms out written] by blast
qed

theorem failure_exit_status_and_destination_witness:
  "fst (main broken_yaml dump_args snapshot_only) \<noteq> 0 \<and>
   yaml_dump broken_yaml (dump_output [plain_module]) = (''summary:'', Some YAMLError) \<and>
   fst (main broken_yaml dump_args snapshot_only) = 1 \<and>
   files (snd (main broken_yaml dump_args snapshot_only))
     = (files snapshot_only)(''parsed_dump.yml'' \<mapsto> File ''summary:'') \<and>
   load_modules corrupt_pickle (Path corrupt_pickle (dump_args ! 1)) snapshot_only
     = Inl UnpicklingError \<and>
   fst (main corrupt_pickle dump_args snapshot_only) = 1 \<and>
   files (snd (main corrupt_pickle dump_args snapshot_only)) = files snapshot_only \<and>
   output_path_of working [''dump_parsed.py'', ''.''] = Inl ValueError \<and>
   fst (main working [''dump_parsed.py'', ''.''] snapshot_only) = 1 \<and>
   files (snd (main working [''dump_parsed.py'', ''.''] snapshot_only)) = files snapshot_only \<and>
   files snapshot_only ''.'' = Some Dir \<and>
   fst (main working [''dump_parsed.py'', ''parsed_output.pkl'', ''.''] snapshot_only) = 1 \<and>
   files (snd (main working [''dump_parsed.py'', ''parsed_output.pkl'', ''.''] snapshot_only))
     = files snapshot_only \<and>
   yaml_dump working (dump_output [plain_module]) = (''summary: {}'', None) \<and>
   fst (main working dump_args snapshot_only) = 0 \<and>
   files (snd (main working dump_args snapshot_only))
     = (files snapshot_only)(''parsed_dump.yml'' \<mapsto> File ''summary: {}'')"
proof -
  have len: "2 \<le> length dump_args" by (simp add: dump_args_def)
  have p1: "Path working (dump_args ! 1) = ''parsed_output.pkl''"
    by (simp add: working_def dump_args_def posix_path_def)
  have pb: "Path broken_yaml = Path working" "Path corrupt_pickle = Path working"
    by (simp_all add: broken_yaml_def corrupt_pickle_def)
  have out: "output_path_of working dump_args = Inr ''parsed_dump.yml''"
    by (simp add: output_path_of_def working_def dump_args_def posix_path_def)
  have outb: "output_path_of broken_yaml dump_args = Inr ''parsed_dump.yml''"
    by (simp add: output_path_of_def broken_yaml_def working_def dump_args_def posix_path_def)
  have lw: "load_modules working ''parsed_output.pkl'' snapshot_only = Inr [plain_module]"
    by (simp add: load_modules_def working_def snapshot_only_def)
  have lb: "load_modules broken_yaml ''parsed_output.pkl'' snapshot_only = Inr [plain_module]"
    by (simp add: load_modules_def broken_yaml_def working_def snapshot_only_def)
  have lc: "load_modules corrupt_pickle (Path corrupt_pickle (dump_args ! 1)) snapshot_only
      = Inl UnpicklingError"
  proof -
    have "Path corrupt_pickle (dump_args ! 1) = ''parsed_output.pkl''"
      using p1 by (simp only: pb)
    then show ?thesis
      by (simp add: load_modules_def corrupt_pickle_def working_def snapshot_only_def)
  qed
  have nd: "files snapshot_only ''parsed_dump.yml'' \<noteq> Some Dir"
    by (simp add: snapshot_only_def)
  have wr: "writable working ''parsed_dump.yml''" "writable broken_yaml ''parsed_dump.yml''"
    by (simp_all add: working_def broken_yaml_def)
  have yb: "yaml_dump broken_yaml (dump_output [plain_module]) = (''summary:'', Some YAMLError)"
    by (simp add: broken_yaml_def working_def)
  have yw: "yaml_dump working (dump_output [plain_module]) = (''summary: {}'', None)"
    by (simp add: working_def)
  have dot: "files snapshot_only ''.'' = Some Dir" by (simp add: snapshot_only_def)
  have pdot: "Path working ([''dump_parsed.py'', ''.''] ! 1) = ''.''"
    by (simp add: working_def posix_path_def)
  have odot: "output_path_of working [''dump_parsed.py'', ''.''] = Inl ValueError"
    by (simp add: output_path_of_def working_def posix_path_def posix_with_name_def)
  have p3: "Path working ([''dump_parsed.py'', ''parsed_output.pkl'', ''.''] ! 1) = ''parsed_output.pkl''"
    by (simp add: working_def posix_path_def)
  have o3: "output_path_of working [''dump_parsed.py'', ''parsed_output.pkl'', ''.''] = Inr ''.''"
    by (simp add: output_path_of_def working_def posix_path_def)
  from failure_exit_status_and_destination
    [where P = broken_yaml and argv = dump_args and w = snapshot_only
       and ms = "[plain_module]" and out = "''parsed_dump.yml''" and written = "''summary:''"]
    len lb outb nd wr yb pb p1
  have a: "fst (main broken_yaml dump_args snapshot_only) = 1 \<and>
   files (snd (main broken_yaml dump_args snapshot_only))
     = (files snapshot_only)(''parsed_dump.yml'' \<mapsto> File ''summary:'')"
    by simp
  from failure_exit_status_and_destination
    [where P = corrupt_pickle and argv = dump_args and w = snapshot_only] len lc
  have b: "fst (main corrupt_pickle dump_args snapshot_only) = 1 \<and>
   files (snd (main corrupt_pickle dump_args snapshot_only)) = files snapshot_only"
    by blast
  from failure_exit_status_and_destination
    [where P = working and argv = "[''dump_parsed.py'', ''.'']" and w = snapshot_only]
    dot pdot odot
  have c: "fst (main working [''dump_parsed.py'', ''.''] snapshot_only) = 1 \<and>
   files (snd (main working [''dump_parsed.py'', ''.''] snapshot_only)) = files snapshot_only"
    by simp
  from failure_exit_status_and_destination
    [where P = working and argv = "[''dump_parsed.py'', ''parsed_output.pkl'', ''.'']"
       and w = snapshot_only and ms = "[plain_module]" and out = "''.''"]
    lw p3 o3 dot
  have d: "fst (main working [''dump_parsed.py'', ''parsed_output.pkl'', ''.''] snapshot_only) = 1 \<and>
   files (snd (main working [''dump_parsed.py'', ''parsed_output.pkl'', ''.''] snapshot_only))
     = files snapshot_only"
    by simp
  from failure_exit_status_and_destination
    [where P = working and argv = dump_args and w = snapshot_only
       and ms = "[plain_module]" and out = "''parsed_dump.yml''" and written = "''summary: {}''"]
    len lw out nd wr yw p1
  have f: "fst (main working dump_args snapshot_only) = 0 \<and>
   files (snd (main working dump_args snapshot_only))
     = (files snapshot_only)(''parsed_dump.yml'' \<mapsto> File ''summary: {}'')"
    by simp
  from a b c d f yb yw lc odot dot show ?thesis by simp
qed

text \<open>
  C9. Invoked with no path argument, the program prints the three lines of the usage text to
  standard output and exits with status 1 without any call to the file system. Invoked with
  a snapshot path that does not exist, it prints the error line, exits with status 1,
  creates and modifies no file, and its only call to the file system is the test that the
  snapshot exists.
\<close>

theorem usage_and_missing_file:
  "(length argv < 2 \<longrightarrow>
      fst (main P argv w) = 1 \<and>
      stdout (snd (main P argv w)) = stdout w @
        [''Usage: python dump_parsed.py <parsed_output.pkl> [output.yml]'',
         CHR 0x0A # ''Example:'',
         ''  python dump_parsed.py parsed_output.pkl parsed_dump.yml''] \<and>
      accesses (snd (main P argv w)) = accesses w \<and>
      files (snd (main P argv w)) = files w) \<and>
   (2 \<le> length argv \<and> files w (Path P (argv ! 1)) = None \<longrightarrow>
      fst (main P argv w) = 1 \<and>
      stdout (snd (main P argv w)) = stdout w @ [''Error: File not found: '' @ Path P (argv ! 1)] \<and>
      files (snd (main P argv w)) = files w \<and>
      accesses (snd (main P argv w)) = accesses w @ [Exists (Path P (argv ! 1))])"
proof (intro conjI impI)
  assume "length argv < 2"
  then have m: "main P argv w = (1, w\<lparr>stdout := stdout w @ usage\<rparr>)" by (rule main_usage)
  show "fst (main P argv w) = 1" by (simp add: m)
  show "stdout (snd (main P argv w)) = stdout w @
        [''Usage: python dump_parsed.py <parsed_output.pkl> [output.yml]'',
         CHR 0x0A # ''Example:'',
         ''  python dump_parsed.py parsed_output.pkl parsed_dump.yml'']"
    by (simp add: m usage_def)
  show "accesses (snd (main P argv w)) = accesses w" by (simp add: m)
  show "files (snd (main P argv w)) = files w" by (simp add: m)
next
  assume a: "2 \<le> length argv \<and> files w (Path P (argv ! 1)) = None"
  then have long: "\<not> length argv < 2" and none: "files w (Path P (argv ! 1)) = None"
    by simp_all
  have m: "main P argv w
       = (1, print (''Error: File not found: '' @ Path P (argv ! 1))
               (access (Exists (Path P (argv ! 1))) w))"
    by (rule main_missing [OF long none])
  show "fst (main P argv w) = 1" by (simp add: m)
  show "stdout (snd (main P argv w)) = stdout w @ [''Error: File not found: '' @ Path P (argv ! 1)]"
    by (simp add: m) (simp add: access_def)
  show "files (snd (main P argv w)) = files w" by (simp add: m)
  show "accesses (snd (main P argv w)) = accesses w @ [Exists (Path P (argv ! 1))]"
    by (simp add: m) (simp add: access_def)
qed

theorem usage_and_missing_file_witness:
  "length [''dump_parsed.py''] < 2 \<and>
   main working [''dump_parsed.py''] snapshot_only
     = (1, snapshot_only\<lparr>stdout :=
             [''Usage: python dump_parsed.py <parsed_output.pkl> [output.yml]'',
              CHR 0x0A # ''Example:'',
              ''  python dump_parsed.py parsed_output.pkl parsed_dump.yml'']\<rparr>) \<and>
   2 \<le> length [''dump_parsed.py'', ''./missing.pkl''] \<and>
   Path working ([''dump_parsed.py'', ''./missing.pkl''] ! 1) = ''missing.pkl'' \<and>
   files snapshot_only ''missing.pkl'' = None \<and>
   fst (main working [''dump_parsed.py'', ''./missing.pkl''] snapshot_only) = 1 \<and>
   stdout (snd (main working [''dump_parsed.py'', ''./missing.pkl''] snapshot_only))
     = [''Error: File not found: missing.pkl''] \<and>
   files (snd (main working [''dump_parsed.py'', ''./missing.pkl''] snapshot_only))
     = files snapshot_only"
proof -
  have u: "main working [''dump_parsed.py''] snapshot_only
     = (1, snapshot_only\<lparr>stdout :=
             [''Usage: python dump_parsed.py <parsed_output.pkl> [output.yml]'',
              CHR 0x0A # ''Example:'',
              ''  python dump_parsed.py parsed_output.pkl parsed_dump.yml'']\<rparr>)"
    using usage_and_missing_file [where argv = "[''dump_parsed.py'']" and P = working and w = snapshot_only]
    by (cases "main working [''dump_parsed.py''] snapshot_only")
       (simp add: snapshot_only_def world.equality)
  have p: "Path working ([''dump_parsed.py'', ''./missing.pkl''] ! 1) = ''missing.pkl''"
    by (simp add: working_def posix_path_def)
  have h: "files snapshot_only ''missing.pkl'' = None"
    by (simp add: snapshot_only_def)
  have s: "stdout snapshot_only = []" by (simp add: snapshot_only_def)
  from usage_and_missing_file [where argv = "[''dump_parsed.py'', ''./missing.pkl'']" and P = working and w = snapshot_only] h p s
  have "fst (main working [''dump_parsed.py'', ''./missing.pkl''] snapshot_only) = 1 \<and>
   stdout (snd (main working [''dump_parsed.py'', ''./missing.pkl''] snapshot_only))
     = [''Error: File not found: missing.pkl''] \<and>
   files (snd (main working [''dump_parsed.py'', ''./missing.pkl''] snapshot_only))
     = files snapshot_only"
    by simp
  with u h p show ?thesis by simp
qed

end
